theory Spec2Isabelle
  imports
    Main
    "HOL-Library.AList"
    "HOL-Library.Char_ord"
    "HOL-Library.List_Lexorder"
begin

section \<open>Go strings and the standard-library helpers the client calls\<close>


definition is_int64 :: "int \<Rightarrow> bool" where
  "is_int64 x \<longleftrightarrow> - (2 ^ 63) \<le> x \<and> x < 2 ^ 63"

text \<open>\<open>strings.HasSuffix\<close>, \<open>strings.TrimSuffix\<close>, \<open>strings.HasPrefix\<close>.\<close>

definition HasSuffix :: "string \<Rightarrow> string \<Rightarrow> bool" where
  "HasSuffix s suffix \<longleftrightarrow>
     length suffix \<le> length s \<and> drop (length s - length suffix) s = suffix"

definition TrimSuffix :: "string \<Rightarrow> string \<Rightarrow> string" where
  "TrimSuffix s suffix =
     (if HasSuffix s suffix then take (length s - length suffix) s else s)"

definition HasPrefix :: "string \<Rightarrow> string \<Rightarrow> bool" where
  "HasPrefix s pre \<longleftrightarrow> take (length pre) s = pre"

text \<open>
  \<open>strings.Trim(s, cutset)\<close>: every leading and every trailing byte that occurs in
  \<open>cutset\<close> is removed. The cutsets used by the client are ASCII, for which Go works
  byte by byte.
\<close>

definition TrimLeft :: "string \<Rightarrow> string \<Rightarrow> string" where
  "TrimLeft s cutset = dropWhile (\<lambda>ch. ch \<in> set cutset) s"

definition TrimRight :: "string \<Rightarrow> string \<Rightarrow> string" where
  "TrimRight s cutset = rev (dropWhile (\<lambda>ch. ch \<in> set cutset) (rev s))"

definition Trim :: "string \<Rightarrow> string \<Rightarrow> string" where
  "Trim s cutset = TrimRight (TrimLeft s cutset) cutset"

text \<open>
  \<open>strings.Index(s, substr)\<close>: the position of the first occurrence; Go's \<open>-1\<close> is
  \<open>None\<close>.
\<close>

fun Index :: "string \<Rightarrow> string \<Rightarrow> nat option" where
  "Index [] substr = (if substr = [] then Some 0 else None)"
| "Index (ch # s) substr =
     (if HasPrefix (ch # s) substr then Some 0 else map_option Suc (Index s substr))"

text \<open>
  \<open>strconv.Itoa\<close>: the decimal rendering of an integer, and \<open>strconv.Atoi\<close>: an optional
  sign followed by one or more decimal digits, whose value fits an \<open>int\<close>; every other
  string (empty, a stray character, an underscore, a value out of range) is an error.
\<close>

definition digit_char :: "nat \<Rightarrow> char" where
  "digit_char d = ''0123456789'' ! d"

fun utoa :: "nat \<Rightarrow> string" where
  "utoa n = (if n < 10 then [digit_char n] else utoa (n div 10) @ [digit_char (n mod 10)])"

definition Itoa :: "int \<Rightarrow> string" where
  "Itoa i = (if i < 0 then CHR ''-'' # utoa (nat (- i)) else utoa (nat i))"

definition is_digit :: "char \<Rightarrow> bool" where
  "is_digit ch \<longleftrightarrow> CHR ''0'' \<le> ch \<and> ch \<le> CHR ''9''"

definition digit_val :: "char \<Rightarrow> nat" where
  "digit_val ch = of_char ch - of_char (CHR ''0'')"

definition digits_val :: "string \<Rightarrow> int" where
  "digits_val ds = foldl (\<lambda>n ch. n * 10 + int (digit_val ch)) 0 ds"

definition Atoi :: "string \<Rightarrow> int option" where
  "Atoi s =
     (let neg = (s \<noteq> [] \<and> hd s = CHR ''-'');
          ds = (if s \<noteq> [] \<and> (hd s = CHR ''-'' \<or> hd s = CHR ''+'') then tl s else s)
      in if ds = [] \<or> \<not> list_all is_digit ds then None
         else let v = (if neg then - digits_val ds else digits_val ds)
              in if is_int64 v then Some v else None)"

text \<open>
  \<open>filepath.Base\<close> and \<open>filepath.Ext\<close> for slash-separated paths: the last element of the
  path, and the suffix of that element from its final dot on.
\<close>

definition Base :: "string \<Rightarrow> string" where
  "Base path =
     (if path = [] then ''.''
      else let p = TrimRight path ''/''
           in if p = [] then ''/'' else rev (takeWhile (\<lambda>ch. ch \<noteq> CHR ''/'') (rev p)))"

definition Ext :: "string \<Rightarrow> string" where
  "Ext path =
     (let elem = takeWhile (\<lambda>ch. ch \<noteq> CHR ''/'') (rev path)
      in if CHR ''.'' \<in> set elem
         then rev (takeWhile (\<lambda>ch. ch \<noteq> CHR ''.'') elem @ ''.'')
         else [])"

section \<open>internal/api: transport, records and resource calls\<close>

text \<open>
  Go errors are values; each constructor stands for one way the client builds an error:
  a failure of the HTTP exchange, of reading a file or a response body, of JSON decoding,
  \<open>fmt.Errorf("<what> %d: %s", status, body)\<close>, and the "not found" messages.
  The last three wrap another error (\<open>%w\<close>) or name the offending argument.
\<close>

datatype go_error =
    TransportError string
  | FileError string
  | ReadError string
  | DecodeError
  | StatusError string int string
  | TagNotFound string
  | TaskNotFound string
  | FileNotFound string
  | UploadFailedFor string go_error
  | DeleteFailed int go_error

datatype form_part = FormFile string string string | FormField string string

datatype req_body = NoBody | MultipartBody "form_part list"

text \<open>
  One call of \<open>c.httpClient.Do(req)\<close>: the request with the headers set on it, and the
  timeout of the \<open>http.Client\<close> that executes it, in seconds.
\<close>

record http_call =
  Timeout :: nat
  Method :: string
  URL :: string
  Header :: "(string \<times> string) list"
  Body :: req_body

text \<open>
  A response as the client reads it: \<open>RespBody\<close> and \<open>ReadErr\<close> are what
  \<open>io.ReadAll(resp.Body)\<close> returns (the bytes read, and the error if the stream broke),
  \<open>RespHeader\<close> maps a canonical header name to its first value.
\<close>

record response =
  StatusCode :: int
  RespHeader :: "(string \<times> string) list"
  RespBody :: string
  ReadErr :: "string option"

record Client =
  baseURL :: string
  token :: string
  timeout :: nat

record Task =
  ID :: int
  TaskID :: string
  TaskFileName :: string
  DateCreated :: string
  DateDone :: string
  Type :: string
  Status :: string
  Result :: string
  Acknowledged :: bool
  RelatedDoc :: string

record Tag =
  ID :: int
  Slug :: string
  Name :: string
  Color :: string
  TextColor :: string
  Match :: string
  MatchingAlgo :: int
  IsInsensitive :: bool
  IsInboxTag :: bool
  DocumentCount :: int

record 'a PaginatedResponse =
  Count :: int
  Next :: string
  Previous :: string
  Results :: "'a list"
  All :: "int list"

record DocumentListParams =
  Query :: string
  Tags :: "string list"
  Correspondent :: string
  DocumentType :: string
  CreatedAfter :: string
  CreatedBefore :: string
  Limit :: int
  Page :: int
  Ordering :: string

text \<open>
  Everything outside the program is a parameter: \<open>Do e k call\<close> is the outcome of the
  \<open>k\<close>-th HTTP exchange of a run (a transport error or a response; a request that
  \<open>http.NewRequest\<close> rejects is a transport error too), the JSON decoders and
  \<open>strings.EqualFold\<close> (Unicode case folding) are library functions, \<open>ReadFile\<close> is
  \<open>os.Open\<close> followed by copying the whole file, \<open>StatNotExist\<close> is
  \<open>os.IsNotExist\<close> of \<open>os.Stat\<close>'s error, and \<open>boundary\<close> is the random multipart
  boundary. The state of a run is the list of the calls made so far.
\<close>

record env =
  Do :: "nat \<Rightarrow> http_call \<Rightarrow> go_error + response"
  EqualFold :: "string \<Rightarrow> string \<Rightarrow> bool"
  decodeTags :: "response \<Rightarrow> Tag PaginatedResponse option"
  decodeTasks :: "response \<Rightarrow> Task list option"
  ReadFile :: "string \<Rightarrow> go_error + string"
  StatNotExist :: "string \<Rightarrow> bool"
  boundary :: string

definition NewClient :: "string \<Rightarrow> string \<Rightarrow> Client" where
  "NewClient url tok = \<lparr>baseURL = TrimSuffix url ''/'', token = tok, timeout = 30\<rparr>"

text \<open>
  \<open>request\<close> builds the request (\<open>new_request\<close>: URL, the three headers in the order they
  are set) and hands it to the HTTP client.
\<close>

definition new_request :: "Client \<Rightarrow> string \<Rightarrow> string \<Rightarrow> req_body \<Rightarrow> string \<Rightarrow> http_call" where
  "new_request c method path body contentType =
     (let url = baseURL c @ path;
          h0 = AList.update ''Authorization'' (''Token '' @ token c) [];
          h1 = (if contentType \<noteq> [] then AList.update ''Content-Type'' contentType h0 else h0);
          h2 = AList.update ''Accept'' ''application/json; version=5'' h1
      in \<lparr>Timeout = timeout c, Method = method, URL = url, Header = h2, Body = body\<rparr>)"

definition request ::
  "Client \<Rightarrow> env \<Rightarrow> string \<Rightarrow> string \<Rightarrow> req_body \<Rightarrow> string \<Rightarrow> http_call list
     \<Rightarrow> (go_error + response) \<times> http_call list" where
  "request c e method path body contentType log =
     (let call = new_request c method path body contentType
      in (Do e (length log) call, log @ [call]))"

abbreviation tags_call :: "Client \<Rightarrow> http_call" where
  "tags_call c \<equiv> new_request c ''GET'' ''/api/tags/?page_size=1000'' NoBody []"

definition get ::
  "Client \<Rightarrow> env \<Rightarrow> string \<Rightarrow> http_call list \<Rightarrow> (go_error + response) \<times> http_call list" where
  "get c e path log = request c e ''GET'' path NoBody [] log"

definition delete ::
  "Client \<Rightarrow> env \<Rightarrow> string \<Rightarrow> http_call list \<Rightarrow> (go_error + response) \<times> http_call list" where
  "delete c e path log = request c e ''DELETE'' path NoBody [] log"

text \<open>
  The tail shared by every list call: a status other than 200 is an error carrying the
  status and the body, otherwise the body is decoded.
\<close>

definition decode_ok :: "(response \<Rightarrow> 'a option) \<Rightarrow> response \<Rightarrow> go_error + 'a" where
  "decode_ok decode resp =
     (if StatusCode resp \<noteq> 200
      then Inl (StatusError ''API error'' (StatusCode resp) (RespBody resp))
      else case decode resp of None \<Rightarrow> Inl DecodeError | Some v \<Rightarrow> Inr v)"

definition list_at ::
  "Client \<Rightarrow> env \<Rightarrow> (response \<Rightarrow> 'a option) \<Rightarrow> string \<Rightarrow> http_call list
     \<Rightarrow> (go_error + 'a) \<times> http_call list" where
  "list_at c e decode path log =
     (case get c e path log of
        (Inl err, log') \<Rightarrow> (Inl err, log')
      | (Inr resp, log') \<Rightarrow> (decode_ok decode resp, log'))"

subsection \<open>Listing documents: the query string\<close>

text \<open>
  \<open>url.Values\<close> is a map from a key to its list of values; \<open>Set\<close> replaces the list,
  \<open>Add\<close> appends to it, \<open>Encode\<close> writes \<open>key=value\<close> pairs sorted by key, both sides
  escaped by \<open>url.QueryEscape\<close>.
\<close>

type_synonym Values = "(string \<times> string list) list"

definition Values_Set :: "string \<Rightarrow> string \<Rightarrow> Values \<Rightarrow> Values" where
  "Values_Set k v q = AList.update k [v] q"

definition Values_Add :: "string \<Rightarrow> string \<Rightarrow> Values \<Rightarrow> Values" where
  "Values_Add k v q =
     AList.update k ((case map_of q k of None \<Rightarrow> [] | Some vs \<Rightarrow> vs) @ [v]) q"

definition is_alnum :: "char \<Rightarrow> bool" where
  "is_alnum ch \<longleftrightarrow>
     (CHR ''a'' \<le> ch \<and> ch \<le> CHR ''z'') \<or> (CHR ''A'' \<le> ch \<and> ch \<le> CHR ''Z'') \<or> is_digit ch"

definition shouldEscape :: "char \<Rightarrow> bool" where
  "shouldEscape ch \<longleftrightarrow> \<not> (is_alnum ch \<or> ch \<in> set ''-_.~'')"

definition upperhex :: "nat \<Rightarrow> char" where
  "upperhex n = ''0123456789ABCDEF'' ! (n mod 16)"

definition QueryEscape :: "string \<Rightarrow> string" where
  "QueryEscape s =
     concat (map (\<lambda>ch. if \<not> shouldEscape ch then [ch]
                       else if ch = CHR '' '' then ''+''
                       else [CHR ''%'', upperhex (of_char ch div 16), upperhex (of_char ch mod 16)]) s)"

fun join_amp :: "string list \<Rightarrow> string" where
  "join_amp [] = []"
| "join_amp [x] = x"
| "join_amp (x # y # ys) = x @ ''&'' @ join_amp (y # ys)"

definition Values_Encode :: "Values \<Rightarrow> string" where
  "Values_Encode q =
     join_amp (concat (map (\<lambda>(k, vs). map (\<lambda>v. QueryEscape k @ ''='' @ QueryEscape v) vs)
                           (sort_key fst q)))"

text \<open>The filters of \<open>ListDocuments\<close>, in the order the function tests them.\<close>

definition documents_query :: "DocumentListParams \<Rightarrow> Values" where
  "documents_query params =
     (let q1 = (if Query params \<noteq> [] then Values_Set ''query'' (Query params) [] else []);
          q2 = foldl (\<lambda>q tag. Values_Add ''tags__name__iexact'' tag q) q1 (Tags params);
          q3 = (if Correspondent params \<noteq> []
                then Values_Set ''correspondent__name__iexact'' (Correspondent params) q2 else q2);
          q4 = (if DocumentType params \<noteq> []
                then Values_Set ''document_type__name__iexact'' (DocumentType params) q3 else q3);
          q5 = (if CreatedAfter params \<noteq> []
                then Values_Set ''created__date__gt'' (CreatedAfter params) q4 else q4);
          q6 = (if CreatedBefore params \<noteq> []
                then Values_Set ''created__date__lt'' (CreatedBefore params) q5 else q5);
          q7 = (if Limit params > 0 then Values_Set ''page_size'' (Itoa (Limit params)) q6 else q6);
          q8 = (if Page params > 0 then Values_Set ''page'' (Itoa (Page params)) q7 else q7)
      in if Ordering params \<noteq> [] then Values_Set ''ordering'' (Ordering params) q8 else q8)"

definition documents_path :: "DocumentListParams \<Rightarrow> string" where
  "documents_path params =
     (let query = documents_query params
      in if length query > 0 then ''/api/documents/'' @ ''?'' @ Values_Encode query
         else ''/api/documents/'')"

definition ListDocuments ::
  "Client \<Rightarrow> env \<Rightarrow> (response \<Rightarrow> 'd PaginatedResponse option) \<Rightarrow> DocumentListParams
     \<Rightarrow> http_call list \<Rightarrow> (go_error + 'd PaginatedResponse) \<times> http_call list" where
  "ListDocuments c e decode params log = list_at c e decode (documents_path params) log"

subsection \<open>Listing the auxiliary resources\<close>

text \<open>
  The record types of correspondents, document types, storage paths and saved views play
  no part below, so their decoders are arguments and the functions are polymorphic in
  the record.
\<close>

definition ListTags ::
  "Client \<Rightarrow> env \<Rightarrow> http_call list \<Rightarrow> (go_error + Tag PaginatedResponse) \<times> http_call list" where
  "ListTags c e log = list_at c e (decodeTags e) ''/api/tags/?page_size=1000'' log"

definition ListCorrespondents ::
  "Client \<Rightarrow> env \<Rightarrow> (response \<Rightarrow> 'r PaginatedResponse option) \<Rightarrow> http_call list
     \<Rightarrow> (go_error + 'r PaginatedResponse) \<times> http_call list" where
  "ListCorrespondents c e decode log =
     list_at c e decode ''/api/correspondents/?page_size=1000'' log"

definition ListDocumentTypes ::
  "Client \<Rightarrow> env \<Rightarrow> (response \<Rightarrow> 'r PaginatedResponse option) \<Rightarrow> http_call list
     \<Rightarrow> (go_error + 'r PaginatedResponse) \<times> http_call list" where
  "ListDocumentTypes c e decode log =
     list_at c e decode ''/api/document_types/?page_size=1000'' log"

definition ListStoragePaths ::
  "Client \<Rightarrow> env \<Rightarrow> (response \<Rightarrow> 'r PaginatedResponse option) \<Rightarrow> http_call list
     \<Rightarrow> (go_error + 'r PaginatedResponse) \<times> http_call list" where
  "ListStoragePaths c e decode log =
     list_at c e decode ''/api/storage_paths/?page_size=1000'' log"

definition ListSavedViews ::
  "Client \<Rightarrow> env \<Rightarrow> (response \<Rightarrow> 'r PaginatedResponse option) \<Rightarrow> http_call list
     \<Rightarrow> (go_error + 'r PaginatedResponse) \<times> http_call list" where
  "ListSavedViews c e decode log =
     list_at c e decode ''/api/saved_views/?page_size=1000'' log"

subsection \<open>Name lookup and task status\<close>

definition FindTagByName ::
  "Client \<Rightarrow> env \<Rightarrow> string \<Rightarrow> http_call list \<Rightarrow> (go_error + Tag) \<times> http_call list" where
  "FindTagByName c e name log =
     (case ListTags c e log of
        (Inl err, log') \<Rightarrow> (Inl err, log')
      | (Inr tags, log') \<Rightarrow>
          (case find (\<lambda>tag. EqualFold e (Name tag) name) (Results tags) of
             Some tag \<Rightarrow> (Inr tag, log')
           | None \<Rightarrow> (Inl (TagNotFound name), log')))"

definition GetTask ::
  "Client \<Rightarrow> env \<Rightarrow> string \<Rightarrow> http_call list \<Rightarrow> (go_error + Task) \<times> http_call list" where
  "GetTask c e taskID log =
     (case list_at c e (decodeTasks e) (''/api/tasks/?task_id='' @ taskID) log of
        (Inl err, log') \<Rightarrow> (Inl err, log')
      | (Inr tasks, log') \<Rightarrow>
          (case tasks of
             [] \<Rightarrow> (Inl (TaskNotFound taskID), log')
           | task # _ \<Rightarrow> (Inr task, log')))"

subsection \<open>Upload, download, delete\<close>

definition upload_parts ::
  "string \<Rightarrow> string \<Rightarrow> string \<Rightarrow> int option \<Rightarrow> int option \<Rightarrow> int list \<Rightarrow> form_part list" where
  "upload_parts filePath content title correspondent docType tags =
     [FormFile ''document'' (Base filePath) content]
     @ (if title \<noteq> [] then [FormField ''title'' title] else [])
     @ (case correspondent of None \<Rightarrow> [] | Some i \<Rightarrow> [FormField ''correspondent'' (Itoa i)])
     @ (case docType of None \<Rightarrow> [] | Some i \<Rightarrow> [FormField ''document_type'' (Itoa i)])
     @ map (\<lambda>tag. FormField ''tags'' (Itoa tag)) tags"

definition UploadDocument ::
  "Client \<Rightarrow> env \<Rightarrow> string \<Rightarrow> string \<Rightarrow> int option \<Rightarrow> int option \<Rightarrow> int list
     \<Rightarrow> http_call list \<Rightarrow> (go_error + string) \<times> http_call list" where
  "UploadDocument c e filePath title correspondent docType tags log =
     (case ReadFile e filePath of
        Inl err \<Rightarrow> (Inl err, log)
      | Inr content \<Rightarrow>
          (case request c e ''POST'' ''/api/documents/post_document/''
                  (MultipartBody (upload_parts filePath content title correspondent docType tags))
                  (''multipart/form-data; boundary='' @ boundary e) log of
             (Inl err, log') \<Rightarrow> (Inl err, log')
           | (Inr resp, log') \<Rightarrow>
               if StatusCode resp \<noteq> 200 \<and> StatusCode resp \<noteq> 201 \<and> StatusCode resp \<noteq> 202
               then (Inl (StatusError ''upload failed'' (StatusCode resp) (RespBody resp)), log')
               else (Inr (Trim (RespBody resp) [CHR 0x22, CHR '' '', CHR 0x0A]), log')))"

abbreviation upload_call ::
  "Client \<Rightarrow> env \<Rightarrow> string \<Rightarrow> string \<Rightarrow> string \<Rightarrow> int option \<Rightarrow> int option \<Rightarrow> int list
     \<Rightarrow> http_call" where
  "upload_call c e filePath content title correspondent docType tags \<equiv>
     new_request c ''POST'' ''/api/documents/post_document/''
       (MultipartBody (upload_parts filePath content title correspondent docType tags))
       (''multipart/form-data; boundary='' @ boundary e)"

text \<open>The filename recovered from the \<open>Content-Disposition\<close> header of a download.\<close>

definition header_get :: "(string \<times> string) list \<Rightarrow> string \<Rightarrow> string" where
  "header_get h k = (case map_of h k of None \<Rightarrow> [] | Some v \<Rightarrow> v)"

definition disposition_filename :: "response \<Rightarrow> string" where
  "disposition_filename resp =
     (let cd = header_get (RespHeader resp) ''Content-Disposition''
      in if cd \<noteq> []
         then (case Index cd ''filename='' of
                 Some idx \<Rightarrow> Trim (drop (idx + 9) cd) [CHR 0x22]
               | None \<Rightarrow> [])
         else [])"

definition DownloadDocument ::
  "Client \<Rightarrow> env \<Rightarrow> int \<Rightarrow> bool \<Rightarrow> http_call list
     \<Rightarrow> (go_error + string \<times> string) \<times> http_call list" where
  "DownloadDocument c e ident original log =
     (let path0 = ''/api/documents/'' @ Itoa ident @ ''/download/'';
          path = (if original then path0 @ ''?original=true'' else path0)
      in case get c e path log of
           (Inl err, log') \<Rightarrow> (Inl err, log')
         | (Inr resp, log') \<Rightarrow>
             if StatusCode resp \<noteq> 200
             then (Inl (StatusError ''download failed'' (StatusCode resp) (RespBody resp)), log')
             else (case ReadErr resp of
                     Some msg \<Rightarrow> (Inl (ReadError msg), log')
                   | None \<Rightarrow> (Inr (RespBody resp, disposition_filename resp), log')))"

abbreviation download_call :: "Client \<Rightarrow> int \<Rightarrow> bool \<Rightarrow> http_call" where
  "download_call c ident original \<equiv>
     new_request c ''GET''
       (if original then (''/api/documents/'' @ Itoa ident @ ''/download/'') @ ''?original=true''
        else ''/api/documents/'' @ Itoa ident @ ''/download/'')
       NoBody []"

definition DeleteDocument ::
  "Client \<Rightarrow> env \<Rightarrow> int \<Rightarrow> http_call list \<Rightarrow> go_error option \<times> http_call list" where
  "DeleteDocument c e ident log =
     (case delete c e (''/api/documents/'' @ Itoa ident @ ''/'') log of
        (Inl err, log') \<Rightarrow> (Some err, log')
      | (Inr resp, log') \<Rightarrow>
          if StatusCode resp \<noteq> 204 \<and> StatusCode resp \<noteq> 200
          then (Some (StatusError ''delete failed'' (StatusCode resp) (RespBody resp)), log')
          else (None, log'))"

section \<open>cmd/documents.go: editing tags, uploading and deleting in batches\<close>

text \<open>
  The block of \<open>runDocsEdit\<close> that rebuilds the tag list. The Go map \<open>tags\<close> is an
  association list whose keys stay distinct; \<open>tags[k] = true\<close> is \<open>AList.update\<close>,
  \<open>delete(tags, k)\<close> is \<open>AList.delete\<close>. Ranging over a Go map visits every key once in
  no particular order, so only the set and the distinctness of \<open>newTags\<close> mean anything.

  \<open>resolve_tag\<close> is the test both loops (and the upload command) apply to a token:
  \<open>strconv.Atoi\<close> first, \<open>FindTagByName\<close> only when that fails.
\<close>

definition resolve_tag ::
  "Client \<Rightarrow> env \<Rightarrow> string \<Rightarrow> http_call list \<Rightarrow> (go_error + int) \<times> http_call list" where
  "resolve_tag c e tagArg log =
     (case Atoi tagArg of
        Some tagID \<Rightarrow> (Inr tagID, log)
      | None \<Rightarrow>
          (case FindTagByName c e tagArg log of
             (Inl err, log') \<Rightarrow> (Inl err, log')
           | (Inr tag, log') \<Rightarrow> (Inr (Tag.ID tag), log')))"

fun add_tags ::
  "Client \<Rightarrow> env \<Rightarrow> string list \<Rightarrow> (int \<times> bool) list \<Rightarrow> http_call list
     \<Rightarrow> (go_error + (int \<times> bool) list) \<times> http_call list" where
  "add_tags c e [] tags log = (Inr tags, log)"
| "add_tags c e (tagArg # rest) tags log =
     (case resolve_tag c e tagArg log of
        (Inl err, log') \<Rightarrow> (Inl (TagNotFound tagArg), log')
      | (Inr tagID, log') \<Rightarrow> add_tags c e rest (AList.update tagID True tags) log')"

fun remove_tags ::
  "Client \<Rightarrow> env \<Rightarrow> string list \<Rightarrow> (int \<times> bool) list \<Rightarrow> http_call list
     \<Rightarrow> (int \<times> bool) list \<times> http_call list" where
  "remove_tags c e [] tags log = (tags, log)"
| "remove_tags c e (tagArg # rest) tags log =
     (case resolve_tag c e tagArg log of
        (Inl err, log') \<Rightarrow> remove_tags c e rest tags log'
      | (Inr tagID, log') \<Rightarrow> remove_tags c e rest (AList.delete tagID tags) log')"

text \<open>
  The result is \<open>None\<close> when neither flag is given (no \<open>"tags"\<close> entry is put into the
  update), otherwise the list stored under \<open>"tags"\<close>; an error leaves \<open>runDocsEdit\<close> at
  once, before \<open>UpdateDocument\<close> is reached.
\<close>

definition runDocsEdit_tags ::
  "Client \<Rightarrow> env \<Rightarrow> int list \<Rightarrow> string list \<Rightarrow> string list \<Rightarrow> http_call list
     \<Rightarrow> (go_error + int list option) \<times> http_call list" where
  "runDocsEdit_tags c e docTags editAddTags editRemoveTags log =
     (if length editAddTags > 0 \<or> length editRemoveTags > 0
      then (let tags = foldl (\<lambda>m t. AList.update t True m) [] docTags
            in case add_tags c e editAddTags tags log of
                 (Inl err, log') \<Rightarrow> (Inl err, log')
               | (Inr tags', log') \<Rightarrow>
                   (case remove_tags c e editRemoveTags tags' log' of
                      (tags'', log'') \<Rightarrow> (Inr (Some (map fst tags'')), log'')))
      else (Inr None, log))"

text \<open>
  What a command prints: a line on standard error, a line on standard output, or a JSON
  object on standard output. The root command's \<open>--json\<close> and \<open>--quiet\<close> flags decide.
\<close>

datatype printed = Stderr string | Stdout string | StdoutJSON "(string \<times> string) list"

record flags =
  jsonOutput :: bool
  quietMode :: bool

text \<open>
  The loop of \<open>runDocsUpload\<close> over its arguments, after the correspondent, the document
  type and the tags have been resolved. The state is the call log and the output so far;
  the first component of the result is the error the command returns (\<open>None\<close> for
  \<open>nil\<close>).
\<close>

fun runDocsUpload_loop ::
  "Client \<Rightarrow> env \<Rightarrow> flags \<Rightarrow> string \<Rightarrow> int option \<Rightarrow> int option \<Rightarrow> int list \<Rightarrow> string list
     \<Rightarrow> http_call list \<times> printed list \<Rightarrow> go_error option \<times> http_call list \<times> printed list" where
  "runDocsUpload_loop c e fl uploadTitle correspondentID docTypeID tagIDs [] (log, out) =
     (None, log, out)"
| "runDocsUpload_loop c e fl uploadTitle correspondentID docTypeID tagIDs (filePath # rest) (log, out) =
     (if StatNotExist e filePath then (Some (FileNotFound filePath), log, out)
      else let title = (if uploadTitle = [] then TrimSuffix (Base filePath) (Ext filePath)
                        else uploadTitle);
               out1 = (if \<not> quietMode fl
                       then out @ [Stderr (''Uploading '' @ Base filePath @ ''...'' @ [CHR 0x0A])]
                       else out)
           in case UploadDocument c e filePath title correspondentID docTypeID tagIDs log of
                (Inl err, log') \<Rightarrow> (Some (UploadFailedFor filePath err), log', out1)
              | (Inr taskID, log') \<Rightarrow>
                  (let out2 =
                         (if jsonOutput fl
                          then out1 @ [StdoutJSON [(''file'', filePath), (''task_id'', taskID)]]
                          else if \<not> quietMode fl
                          then out1 @ [Stdout (''Uploaded '' @ Base filePath @ '' (task: '' @ taskID
                                               @ '')'' @ [CHR 0x0A])]
                          else out1)
                   in runDocsUpload_loop c e fl uploadTitle correspondentID docTypeID tagIDs rest
                        (log', out2)))"

text \<open>
  Names for the pieces of the loop body: the title sent with a file, the progress line, and
  what a successful upload prints.
\<close>

abbreviation upload_title :: "string \<Rightarrow> string \<Rightarrow> string" where
  "upload_title uploadTitle filePath \<equiv>
     (if uploadTitle = [] then TrimSuffix (Base filePath) (Ext filePath) else uploadTitle)"

abbreviation uploading_line :: "flags \<Rightarrow> string \<Rightarrow> printed list" where
  "uploading_line fl filePath \<equiv>
     (if \<not> quietMode fl then [Stderr (''Uploading '' @ Base filePath @ ''...'' @ [CHR 0x0A])] else [])"

abbreviation uploaded_report :: "flags \<Rightarrow> string \<Rightarrow> string \<Rightarrow> printed list" where
  "uploaded_report fl filePath taskID \<equiv>
     (if jsonOutput fl then [StdoutJSON [(''file'', filePath), (''task_id'', taskID)]]
      else if \<not> quietMode fl
      then [Stdout (''Uploaded '' @ Base filePath @ '' (task: '' @ taskID @ '')'' @ [CHR 0x0A])]
      else [])"

text \<open>The loop of \<open>runDocsDelete\<close> over the parsed identifiers.\<close>

fun runDocsDelete_loop ::
  "Client \<Rightarrow> env \<Rightarrow> flags \<Rightarrow> int list \<Rightarrow> http_call list \<times> printed list
     \<Rightarrow> go_error option \<times> http_call list \<times> printed list" where
  "runDocsDelete_loop c e fl [] (log, out) = (None, log, out)"
| "runDocsDelete_loop c e fl (ident # rest) (log, out) =
     (case DeleteDocument c e ident log of
        (Some err, log') \<Rightarrow> (Some (DeleteFailed ident err), log', out)
      | (None, log') \<Rightarrow>
          runDocsDelete_loop c e fl rest
            (log', if \<not> quietMode fl
                   then out @ [Stdout (''Deleted document '' @ Itoa ident @ [CHR 0x0A])]
                   else out))"

abbreviation deleted_line :: "flags \<Rightarrow> int \<Rightarrow> printed list" where
  "deleted_line fl ident \<equiv>
     (if \<not> quietMode fl then [Stdout (''Deleted document '' @ Itoa ident @ [CHR 0x0A])] else [])"

abbreviation delete_call :: "Client \<Rightarrow> int \<Rightarrow> http_call" where
  "delete_call c ident \<equiv> new_request c ''DELETE'' (''/api/documents/'' @ Itoa ident @ ''/'') NoBody []"

section \<open>The specification's reading of resolution, reconciliation and the task handle\<close>

text \<open>
  These follow the words of the specification, not the code, and are what the code is
  compared with. A token resolves against a fixed list of records: an integer token to
  itself, any other token to the identifier of the first record whose name equals it up
  to case. Reconciliation is set algebra: the current identifiers, plus what the add
  tokens resolve to, minus what the remove tokens resolve to.
\<close>

definition spec_resolve :: "(string \<Rightarrow> string \<Rightarrow> bool) \<Rightarrow> Tag list \<Rightarrow> string \<Rightarrow> int option" where
  "spec_resolve eqf records tok =
     (case Atoi tok of
        Some i \<Rightarrow> Some i
      | None \<Rightarrow> map_option Tag.ID (find (\<lambda>r. eqf (Name r) tok) records))"


text \<open>
  The task handle as the specification words it: the body with whitespace and quote
  characters stripped from both ends.
\<close>

definition is_space :: "char \<Rightarrow> bool" where
  "is_space ch \<longleftrightarrow> ch \<in> set [CHR 0x09, CHR 0x0A, CHR 0x0B, CHR 0x0C, CHR 0x0D, CHR '' '']"

definition spec_task_handle :: "string \<Rightarrow> string" where
  "spec_task_handle body =
     Trim body [CHR 0x22, CHR 0x09, CHR 0x0A, CHR 0x0B, CHR 0x0C, CHR 0x0D, CHR '' '']"

section \<open>Sample environments\<close>

text \<open>
  Concrete servers and files on which the theorems below are exercised: \<open>replay rs\<close>
  answers the \<open>k\<close>-th exchange with \<open>rs ! k\<close> and refuses the connection afterwards; the
  decoders recognise a few fixed bodies; names are compared up to ASCII case.
\<close>

definition ascii_lower :: "char \<Rightarrow> char" where
  "ascii_lower ch =
     (case map_of (zip ''ABCDEFGHIJKLMNOPQRSTUVWXYZ'' ''abcdefghijklmnopqrstuvwxyz'') ch of
        Some l \<Rightarrow> l
      | None \<Rightarrow> ch)"

definition ascii_EqualFold :: "string \<Rightarrow> string \<Rightarrow> bool" where
  "ascii_EqualFold s t \<longleftrightarrow> map ascii_lower s = map ascii_lower t"

definition sample_tag :: "int \<Rightarrow> string \<Rightarrow> Tag" where
  "sample_tag i n =
     \<lparr>ID = i, Slug = map ascii_lower n, Name = n, Color = ''#a6cee3'', TextColor = ''#000000'',
      Match = [], MatchingAlgo = 0, IsInsensitive = True, IsInboxTag = False,
      DocumentCount = 0\<rparr>"

definition sample_tags :: "Tag list" where
  "sample_tags = [sample_tag 5 ''Inbox'', sample_tag 7 ''Taxes'', sample_tag 9 ''inbox'']"

definition sample_task :: Task where
  "sample_task =
     \<lparr>Task.ID = 12, TaskID = ''6f1c'', TaskFileName = ''a.pdf'', DateCreated = ''2024-01-01'',
      DateDone = [], Type = ''file'', Status = ''PENDING'', Result = [], Acknowledged = False,
      RelatedDoc = []\<rparr>"

definition reply :: "int \<Rightarrow> string \<Rightarrow> response" where
  "reply st body = \<lparr>StatusCode = st, RespHeader = [], RespBody = body, ReadErr = None\<rparr>"

definition replay :: "(go_error + response) list \<Rightarrow> nat \<Rightarrow> http_call \<Rightarrow> go_error + response" where
  "replay rs k call = (if k < length rs then rs ! k else Inl (TransportError ''connection refused''))"

definition sample_env :: "(nat \<Rightarrow> http_call \<Rightarrow> go_error + response) \<Rightarrow> env" where
  "sample_env exchange =
     \<lparr>Do = exchange,
      EqualFold = ascii_EqualFold,
      decodeTags = (\<lambda>r. if RespBody r = ''TAGS''
                         then Some \<lparr>Count = 3, Next = [], Previous = [], Results = sample_tags,
                                    All = []\<rparr>
                         else None),
      decodeTasks = (\<lambda>r. if RespBody r = ''[]'' then Some []
                          else if RespBody r = ''[task]'' then Some [sample_task]
                          else None),
      ReadFile = (\<lambda>p. if p \<in> set [''a.pdf'', ''b.pdf'', ''c.pdf''] then Inr ''%PDF-1.7''
                       else Inl (FileError p)),
      StatNotExist = (\<lambda>p. p \<notin> set [''a.pdf'', ''b.pdf'', ''c.pdf'']),
      boundary = ''7d1a''\<rparr>"

definition sample_client :: Client where
  "sample_client = NewClient ''https://paperless.example/'' ''s3cr3t''"

abbreviation tag_server :: env where
  "tag_server \<equiv> sample_env (\<lambda>k call. Inr (reply 200 ''TAGS''))"

abbreviation sample_page :: "Tag PaginatedResponse" where
  "sample_page \<equiv> \<lparr>Count = 3, Next = [], Previous = [], Results = sample_tags, All = []\<rparr>"

definition sample_params :: DocumentListParams where
  "sample_params = \<lparr>Query = ''tax 2024'', Tags = [], Correspondent = [], DocumentType = [],
     CreatedAfter = [], CreatedBefore = [], Limit = 10, Page = 0, Ordering = []\<rparr>"

definition no_params :: DocumentListParams where
  "no_params = \<lparr>Query = [], Tags = [], Correspondent = [], DocumentType = [],
     CreatedAfter = [], CreatedBefore = [], Limit = 0, Page = 0, Ordering = []\<rparr>"

abbreviation batch_server :: env where
  "batch_server \<equiv>
     sample_env (replay [Inr (reply 200 ([CHR 0x22] @ ''6f1c'' @ [CHR 0x22])), Inr (reply 400 ''bad file'')])"

abbreviation delete_server :: env where
  "delete_server \<equiv> sample_env (replay [Inr (reply 204 []), Inr (reply 404 ''no such document'')])"

section \<open>cmd/documents.go: the display helper\<close>



section \<open>Properties of the display helper\<close>








section \<open>Properties of the transport\<close>

lemma request_eq:
  "request c e method path body contentType log =
     (Do e (length log) (new_request c method path body contentType),
      log @ [new_request c method path body contentType])"
  by (simp add: request_def Let_def)

lemma get_eq:
  "get c e path log =
     (Do e (length log) (new_request c ''GET'' path NoBody []),
      log @ [new_request c ''GET'' path NoBody []])"
  by (simp add: get_def request_eq)

lemma list_at_eq:
  "list_at c e decode path log =
     (case Do e (length log) (new_request c ''GET'' path NoBody []) of
        Inl err \<Rightarrow> Inl err
      | Inr resp \<Rightarrow> decode_ok decode resp,
      log @ [new_request c ''GET'' path NoBody []])"
  by (simp add: list_at_def get_eq split: sum.split)

lemma new_request_fields:
  "URL (new_request c method path body contentType) = baseURL c @ path"
  "Method (new_request c method path body contentType) = method"
  "Timeout (new_request c method path body contentType) = timeout c"
  "Body (new_request c method path body contentType) = body"
  by (simp_all add: new_request_def Let_def)

lemma new_request_headers:
  "map_of (Header (new_request c method path body contentType)) ''Authorization''
     = Some (''Token '' @ token c)"
  "map_of (Header (new_request c method path body contentType)) ''Accept''
     = Some ''application/json; version=5''"
  by (simp_all add: new_request_def Let_def AList.update_conv')

lemma NewClient_timeout: "timeout (NewClient url tok) = 30"
  by (simp add: NewClient_def)

text \<open>
  A base URL that does not end in two slashes is stored without a trailing slash, so a
  path that starts with a slash is joined to it by exactly one.
\<close>

lemma HasSuffix_iff: "HasSuffix s suffix \<longleftrightarrow> (\<exists>p. s = p @ suffix)"
proof
  assume h: "HasSuffix s suffix"
  have "s = take (length s - length suffix) s @ drop (length s - length suffix) s"
    by simp
  with h show "\<exists>p. s = p @ suffix"
    unfolding HasSuffix_def by metis
next
  assume "\<exists>p. s = p @ suffix"
  then show "HasSuffix s suffix"
    by (auto simp add: HasSuffix_def)
qed

lemma TrimSuffix_append: "TrimSuffix (p @ suffix) suffix = p"
  by (simp add: TrimSuffix_def HasSuffix_def)

lemma NewClient_single_slash:
  assumes "\<not> HasSuffix url ''//''"
  shows "\<not> HasSuffix (baseURL (NewClient url tok)) ''/''"
proof (cases "HasSuffix url ''/''")
  case True
  then obtain p where p: "url = p @ ''/''"
    by (auto simp add: HasSuffix_iff)
  then have b: "baseURL (NewClient url tok) = p"
    by (simp add: NewClient_def TrimSuffix_append)
  show ?thesis
  proof
    assume "HasSuffix (baseURL (NewClient url tok)) ''/''"
    with b obtain q where "p = q @ ''/''"
      by (auto simp add: HasSuffix_iff)
    with p have "url = q @ ''//''" by simp
    with assms show False
      by (auto simp add: HasSuffix_iff)
  qed
next
  case False
  then show ?thesis
    by (simp add: NewClient_def TrimSuffix_def)
qed

text \<open>
  Claim C6. Every request carries \<open>Authorization: Token <token>\<close> and an \<open>Accept\<close> header
  naming an API version and runs under a 30-second timeout (the three lemmas
  \<open>new_request_headers\<close>, \<open>new_request_fields\<close>, \<open>NewClient_timeout\<close> above), and the URL
  is the base URL joined with the path without a duplicate slash, for every base URL.
  The last part fails: \<open>NewClient\<close> removes one trailing slash only, so a base URL ending
  in two slashes keeps one, and the path's leading slash doubles it.
\<close>

theorem request_url_duplicate_slash:
  "URL (new_request (NewClient ''http://host//'' ''s3cr3t'') ''GET'' ''/api/tags/?page_size=1000'' NoBody [])
     = ''http://host//api/tags/?page_size=1000''"
  by (simp add: new_request_def NewClient_def TrimSuffix_def HasSuffix_def Let_def)

section \<open>Properties of the task lookup\<close>

text \<open>
  Claim C7. \<open>GetTask\<close> issues one GET of \<open>/api/tasks/?task_id=<id>\<close>. When the server
  answers 200 and the body decodes to a list, the result is the first element of the
  list, and a "not found" error when the list is empty; and whenever \<open>GetTask\<close> returns a
  task, it is the first element of the list the server returned.
\<close>

theorem GetTask_first_or_not_found:
  "snd (GetTask c e taskID log)
     = log @ [new_request c ''GET'' (''/api/tasks/?task_id='' @ taskID) NoBody []] \<and>
   (\<forall>resp tasks.
      Do e (length log) (new_request c ''GET'' (''/api/tasks/?task_id='' @ taskID) NoBody []) = Inr resp
      \<and> StatusCode resp = 200 \<and> decodeTasks e resp = Some tasks
      \<longrightarrow> fst (GetTask c e taskID log)
            = (case tasks of [] \<Rightarrow> Inl (TaskNotFound taskID) | task # rest \<Rightarrow> Inr task)) \<and>
   (\<forall>task. fst (GetTask c e taskID log) = Inr task
      \<longrightarrow> (\<exists>resp rest.
             Do e (length log) (new_request c ''GET'' (''/api/tasks/?task_id='' @ taskID) NoBody [])
               = Inr resp
             \<and> StatusCode resp = 200 \<and> decodeTasks e resp = Some (task # rest)))"
  by (auto simp add: GetTask_def list_at_eq decode_ok_def split: sum.splits list.splits option.splits if_splits)

theorem GetTask_first_or_not_found_witness:
  "fst (GetTask sample_client (sample_env (replay [Inr (reply 200 ''[]'')])) ''6f1c'' [])
     = Inl (TaskNotFound ''6f1c'') \<and>
   fst (GetTask sample_client (sample_env (replay [Inr (reply 200 ''[task]'')])) ''6f1c'' [])
     = Inr sample_task \<and>
   URL (last (snd (GetTask sample_client (sample_env (replay [Inr (reply 200 ''[task]'')])) ''6f1c'' [])))
     = ''https://paperless.example/api/tasks/?task_id=6f1c''"
  using GetTask_first_or_not_found [of sample_client "sample_env (replay [Inr (reply 200 ''[]'')])" "''6f1c''" "[]"]
    GetTask_first_or_not_found [of sample_client "sample_env (replay [Inr (reply 200 ''[task]'')])" "''6f1c''" "[]"]
  by (simp add: sample_env_def replay_def reply_def new_request_fields sample_client_def NewClient_def TrimSuffix_def HasSuffix_def)

section \<open>Properties of name resolution\<close>

lemma ListTags_eq:
  "ListTags c e log =
     (case Do e (length log) (tags_call c) of
        Inl err \<Rightarrow> Inl err
      | Inr resp \<Rightarrow> decode_ok (decodeTags e) resp,
      log @ [tags_call c])"
  by (simp add: ListTags_def list_at_eq)

lemma ListTags_pair: "ListTags c e log = (fst (ListTags c e log), log @ [tags_call c])"
  by (simp add: ListTags_eq)

lemma FindTagByName_error:
  "fst (ListTags c e log) = Inl err \<Longrightarrow>
     FindTagByName c e name log = (Inl err, log @ [tags_call c])"
  by (subst FindTagByName_def, subst ListTags_pair) simp

lemma FindTagByName_listed:
  "fst (ListTags c e log) = Inr page \<Longrightarrow>
     FindTagByName c e name log =
       (case find (\<lambda>tag. EqualFold e (Name tag) name) (Results page) of
          Some tag \<Rightarrow> Inr tag
        | None \<Rightarrow> Inl (TagNotFound name),
        log @ [tags_call c])"
  by (subst FindTagByName_def, subst ListTags_pair) (simp split: option.split)

lemma snd_FindTagByName: "snd (FindTagByName c e name log) = log @ [tags_call c]"
  by (cases "fst (ListTags c e log)") (simp_all add: FindTagByName_error FindTagByName_listed)

lemma find_first_match:
  "\<forall>x\<in>set pre. \<not> P x \<Longrightarrow> P y \<Longrightarrow> find P (pre @ y # post) = Some y"
  by (induction pre) simp_all

lemma find_no_match: "\<forall>x\<in>set xs. \<not> P x \<Longrightarrow> find P xs = None"
  by (simp add: find_None_iff)

lemma resolve_tag_integer: "Atoi tok = Some i \<Longrightarrow> resolve_tag c e tok log = (Inr i, log)"
  by (simp add: resolve_tag_def)

lemma resolve_tag_name:
  "Atoi tok = None \<Longrightarrow>
     resolve_tag c e tok log =
       (case fst (FindTagByName c e tok log) of
          Inl err \<Rightarrow> Inl err
        | Inr tag \<Rightarrow> Inr (Tag.ID tag),
        log @ [tags_call c])"
  using snd_FindTagByName [of c e tok log]
  by (cases "FindTagByName c e tok log") (auto simp add: resolve_tag_def split: sum.split)

lemma Atoi_42: "Atoi ''42'' = Some 42"
  by (simp add: Atoi_def is_digit_def digits_val_def digit_val_def is_int64_def)

lemma Atoi_name: "Atoi (CHR ''i'' # s) = None" "Atoi (CHR ''I'' # s) = None" "Atoi (CHR ''r'' # s) = None"
  by (simp_all add: Atoi_def is_digit_def)

lemma sample_ListTags:
  "fst (ListTags sample_client (sample_env (\<lambda>k call. Inr (reply 200 ''TAGS''))) log)
     = Inr \<lparr>Count = 3, Next = [], Previous = [], Results = sample_tags, All = []\<rparr>"
  by (simp add: ListTags_eq sample_env_def reply_def decode_ok_def)

text \<open>
  Claim C2. A token that \<open>strconv.Atoi\<close> accepts resolves to that integer, and no call is
  made (the log is unchanged). Any other token costs exactly one list call,
  \<open>GET /api/tags/?page_size=1000\<close>; when the listing succeeds, the result is the first
  record whose name equals the token up to case, and a "not found" error when no
  record's name does.
\<close>

theorem resolve_integer_or_first_name_match:
  "(Atoi tok = Some i \<longrightarrow> resolve_tag c e tok log = (Inr i, log)) \<and>
   (Atoi tok = None \<longrightarrow>
      snd (resolve_tag c e tok log) = log @ [tags_call c] \<and>
      (fst (ListTags c e log) = Inr page \<and> Results page = pre @ tag # post
         \<and> (\<forall>r\<in>set pre. \<not> EqualFold e (Name r) tok) \<and> EqualFold e (Name tag) tok
       \<longrightarrow> FindTagByName c e tok log = (Inr tag, log @ [tags_call c])
           \<and> fst (resolve_tag c e tok log) = Inr (Tag.ID tag)) \<and>
      (fst (ListTags c e log) = Inr page \<and> (\<forall>r\<in>set (Results page). \<not> EqualFold e (Name r) tok)
       \<longrightarrow> FindTagByName c e tok log = (Inl (TagNotFound tok), log @ [tags_call c])
           \<and> fst (resolve_tag c e tok log) = Inl (TagNotFound tok)))"
proof (intro conjI impI)
  assume "Atoi tok = Some i"
  then show "resolve_tag c e tok log = (Inr i, log)"
    by (rule resolve_tag_integer)
next
  assume "Atoi tok = None"
  then show "snd (resolve_tag c e tok log) = log @ [tags_call c]"
    by (simp add: resolve_tag_name)
next
  assume n: "Atoi tok = None"
    and h: "fst (ListTags c e log) = Inr page \<and> Results page = pre @ tag # post
       \<and> (\<forall>r\<in>set pre. \<not> EqualFold e (Name r) tok) \<and> EqualFold e (Name tag) tok"
  then have f: "find (\<lambda>r. EqualFold e (Name r) tok) (Results page) = Some tag"
    by (simp add: find_first_match)
  with h show 1: "FindTagByName c e tok log = (Inr tag, log @ [tags_call c])"
    by (simp add: FindTagByName_listed)
  with n show "fst (resolve_tag c e tok log) = Inr (Tag.ID tag)"
    by (simp add: resolve_tag_name)
next
  assume n: "Atoi tok = None"
    and h: "fst (ListTags c e log) = Inr page \<and> (\<forall>r\<in>set (Results page). \<not> EqualFold e (Name r) tok)"
  then have f: "find (\<lambda>r. EqualFold e (Name r) tok) (Results page) = None"
    by (simp add: find_no_match)
  with h show 1: "FindTagByName c e tok log = (Inl (TagNotFound tok), log @ [tags_call c])"
    by (simp add: FindTagByName_listed)
  with n show "fst (resolve_tag c e tok log) = Inl (TagNotFound tok)"
    by (simp add: resolve_tag_name)
qed

theorem resolve_integer_or_first_name_match_witness:
  "resolve_tag sample_client (sample_env (replay [])) ''42'' [] = (Inr 42, []) \<and>
   fst (resolve_tag sample_client (sample_env (\<lambda>k call. Inr (reply 200 ''TAGS''))) ''INBOX'' []) = Inr 5 \<and>
   fst (resolve_tag sample_client (sample_env (\<lambda>k call. Inr (reply 200 ''TAGS''))) ''receipts'' [])
     = Inl (TagNotFound ''receipts'') \<and>
   URL (last (snd (resolve_tag sample_client (sample_env (\<lambda>k call. Inr (reply 200 ''TAGS''))) ''INBOX'' [])))
     = ''https://paperless.example/api/tags/?page_size=1000''"
proof -
  let ?e = "sample_env (\<lambda>k call. Inr (reply 200 ''TAGS''))"
  let ?page = "\<lparr>Count = 3, Next = [], Previous = [], Results = sample_tags, All = []\<rparr>"
  have eqf: "EqualFold ?e = ascii_EqualFold"
    by (simp add: sample_env_def)
  have lt: "fst (ListTags sample_client ?e []) = Inr ?page"
    by (rule sample_ListTags)
  have a: "resolve_tag sample_client (sample_env (replay [])) ''42'' [] = (Inr 42, [])"
    using resolve_integer_or_first_name_match
            [where tok = "''42''" and i = 42 and c = sample_client and e = "sample_env (replay [])"
               and log = "[]"]
    by (simp add: Atoi_42)
  have n: "Atoi ''INBOX'' = None" "Atoi ''receipts'' = None"
    by (simp_all add: Atoi_name)
  let ?t5 = "sample_tag 5 ''Inbox''"
  let ?rest = "[sample_tag 7 ''Taxes'', sample_tag 9 ''inbox'']"
  have f1: "EqualFold ?e (Name ?t5) ''INBOX''"
    by (simp add: eqf sample_tag_def ascii_EqualFold_def ascii_lower_def)
  have f2: "Results ?page = [] @ ?t5 # ?rest"
    by (simp add: sample_tags_def)
  have f3: "\<forall>r\<in>set []. \<not> EqualFold ?e (Name r) ''INBOX''"
    by simp
  have "fst (resolve_tag sample_client ?e ''INBOX'' []) = Inr (Tag.ID ?t5)"
    by (rule resolve_integer_or_first_name_match
               [THEN conjunct2, THEN mp, OF n(1), THEN conjunct2, THEN conjunct1, THEN mp,
                OF conjI [OF lt conjI [OF f2 conjI [OF f3 f1]]], THEN conjunct2])
  then have b: "fst (resolve_tag sample_client ?e ''INBOX'' []) = Inr 5"
    by (simp add: sample_tag_def)
  have f4: "\<forall>r\<in>set (Results ?page). \<not> EqualFold ?e (Name r) ''receipts''"
    by (simp add: eqf sample_tags_def sample_tag_def ascii_EqualFold_def ascii_lower_def)
  have c: "fst (resolve_tag sample_client ?e ''receipts'' []) = Inl (TagNotFound ''receipts'')"
    by (rule resolve_integer_or_first_name_match
               [THEN conjunct2, THEN mp, OF n(2), THEN conjunct2, THEN conjunct2, THEN mp,
                OF conjI [OF lt f4], THEN conjunct2])
  have d: "URL (last (snd (resolve_tag sample_client ?e ''INBOX'' [])))
     = ''https://paperless.example/api/tags/?page_size=1000''"
    using resolve_integer_or_first_name_match
            [where tok = "''INBOX''" and c = sample_client and e = ?e and log = "[]"]
    by (simp add: Atoi_name new_request_fields sample_client_def NewClient_def TrimSuffix_def
          HasSuffix_def)
  from a b c d show ?thesis by simp
qed

section \<open>Properties of tag reconciliation\<close>

lemma resolve_tag_name_fails:
  "Atoi tok = None \<Longrightarrow> fst (FindTagByName c e tok log) = Inl err \<Longrightarrow>
     resolve_tag c e tok log = (Inl err, log @ [tags_call c])"
  by (simp add: resolve_tag_name)








lemma resolve_tag_stable:
  assumes "\<forall>l. fst (ListTags c e l) = Inr page"
  shows "fst (resolve_tag c e tok log) =
           (case spec_resolve (EqualFold e) (Results page) tok of
              Some i \<Rightarrow> Inr i
            | None \<Rightarrow> Inl (TagNotFound tok))"
proof (cases "Atoi tok")
  case None
  from assms have "fst (ListTags c e log) = Inr page" by simp
  with None show ?thesis
    by (simp add: resolve_tag_name FindTagByName_listed spec_resolve_def split: option.split)
next
  case (Some i)
  then show ?thesis
    by (simp add: resolve_tag_integer spec_resolve_def)
qed



lemma remove_tags_unresolved:
  assumes "\<forall>l. fst (ListTags c e l) = Inr page"
  shows "\<forall>tok\<in>set rems. spec_resolve (EqualFold e) (Results page) tok = None \<Longrightarrow>
           fst (remove_tags c e rems tags log) = tags"
proof (induction rems arbitrary: log)
  case Nil
  then show ?case by simp
next
  case (Cons tok rest)
  show ?case
  proof (cases "resolve_tag c e tok log")
    case (Pair r l1)
    with resolve_tag_stable [OF assms, of tok log] Cons.prems
    have "r = Inl (TagNotFound tok)"
      by simp
    with Pair Cons.IH [of l1] Cons.prems show ?thesis by simp
  qed
qed


lemma tag_server_stable: "\<forall>l. fst (ListTags sample_client tag_server l) = Inr sample_page"
  by (simp add: sample_ListTags)

lemma tag_server_EqualFold: "EqualFold tag_server = ascii_EqualFold"
  by (simp add: sample_env_def)

lemma sample_spec_resolve:
  "spec_resolve ascii_EqualFold sample_tags ''inbox'' = Some 5"
  "spec_resolve ascii_EqualFold sample_tags ''INBOX'' = Some 5"
  "spec_resolve ascii_EqualFold sample_tags ''receipts'' = None"
  by (simp_all add: spec_resolve_def Atoi_name sample_tags_def sample_tag_def ascii_EqualFold_def
        ascii_lower_def)

lemma tag_server_resolve:
  "resolve_tag sample_client tag_server ''inbox'' log = (Inr 5, log @ [tags_call sample_client])"
  "resolve_tag sample_client tag_server ''INBOX'' log = (Inr 5, log @ [tags_call sample_client])"
  "resolve_tag sample_client tag_server ''receipts'' log
     = (Inl (TagNotFound ''receipts''), log @ [tags_call sample_client])"
  using resolve_tag_stable [OF tag_server_stable, of "''inbox''" log]
    resolve_tag_stable [OF tag_server_stable, of "''INBOX''" log]
    resolve_tag_stable [OF tag_server_stable, of "''receipts''" log]
    resolve_tag_name [of "''inbox''" sample_client tag_server log]
    resolve_tag_name [of "''INBOX''" sample_client tag_server log]
    resolve_tag_name [of "''receipts''" sample_client tag_server log]
  by (simp_all add: prod_eq_iff tag_server_EqualFold sample_spec_resolve Atoi_name)

lemma Atoi_small: "Atoi ''2'' = Some 2" "Atoi ''4'' = Some 4" "Atoi ''8'' = Some 8"
  by (simp_all add: Atoi_def is_digit_def digits_val_def digit_val_def is_int64_def)



text \<open>
  Claim C5. A remove token whose name lookup fails is skipped: the loop goes on with
  the same tags, and when no remove token resolves the tags are left as they were; the
  remove phase never returns an error. Removing an integer identifier that is not among
  the tags changes nothing either. An add token whose name lookup fails ends the edit
  with "tag not found".
\<close>

theorem remove_skips_add_aborts:
  "(Atoi tok = None \<and> fst (FindTagByName c e tok log) = Inl err \<longrightarrow>
      remove_tags c e (tok # rest) tags log = remove_tags c e rest tags (log @ [tags_call c])
      \<and> add_tags c e (tok # rest) tags log = (Inl (TagNotFound tok), log @ [tags_call c])
      \<and> runDocsEdit_tags c e docTags (tok # rest) rems log
          = (Inl (TagNotFound tok), log @ [tags_call c])) \<and>
   (Atoi tok = Some i \<and> i \<notin> fst ` set tags \<longrightarrow>
      remove_tags c e (tok # rest) tags log = remove_tags c e rest tags log) \<and>
   ((\<forall>l. fst (ListTags c e l) = Inr page)
      \<and> (\<forall>t\<in>set rems. spec_resolve (EqualFold e) (Results page) t = None) \<longrightarrow>
      fst (remove_tags c e rems tags log) = tags) \<and>
   (rems \<noteq> [] \<longrightarrow>
      (\<exists>newTags. fst (runDocsEdit_tags c e docTags [] rems log) = Inr (Some newTags)))"
proof (intro conjI impI)
  assume h: "Atoi tok = None \<and> fst (FindTagByName c e tok log) = Inl err"
  then have r: "resolve_tag c e tok log = (Inl err, log @ [tags_call c])"
    by (simp add: resolve_tag_name_fails)
  then show "remove_tags c e (tok # rest) tags log = remove_tags c e rest tags (log @ [tags_call c])"
    by simp
  from r show "add_tags c e (tok # rest) tags log = (Inl (TagNotFound tok), log @ [tags_call c])"
    by simp
  from r show "runDocsEdit_tags c e docTags (tok # rest) rems log
          = (Inl (TagNotFound tok), log @ [tags_call c])"
    by (simp add: runDocsEdit_tags_def)
next
  assume "Atoi tok = Some i \<and> i \<notin> fst ` set tags"
  then show "remove_tags c e (tok # rest) tags log = remove_tags c e rest tags log"
    by (simp add: resolve_tag_integer)
next
  assume "(\<forall>l. fst (ListTags c e l) = Inr page)
      \<and> (\<forall>t\<in>set rems. spec_resolve (EqualFold e) (Results page) t = None)"
  then show "fst (remove_tags c e rems tags log) = tags"
    by (simp add: remove_tags_unresolved)
next
  assume "rems \<noteq> []"
  then show "\<exists>newTags. fst (runDocsEdit_tags c e docTags [] rems log) = Inr (Some newTags)"
    by (simp add: runDocsEdit_tags_def split: prod.split)
qed

theorem remove_skips_add_aborts_witness:
  "fst (runDocsEdit_tags sample_client tag_server [1, 5] [] [''receipts'', ''8''] [])
     = Inr (Some [1, 5]) \<and>
   fst (remove_tags sample_client tag_server [''receipts''] [(1, True), (5, True)] [])
     = [(1, True), (5, True)] \<and>
   runDocsEdit_tags sample_client tag_server [1, 5] [''receipts'', ''4''] [] []
     = (Inl (TagNotFound ''receipts''), [tags_call sample_client])"
proof -
  have n: "Atoi ''receipts'' = None"
    by (simp add: Atoi_name)
  have f: "fst (FindTagByName sample_client tag_server ''receipts'' []) = Inl (TagNotFound ''receipts'')"
    using tag_server_resolve(3) [of "[]"] by (simp add: resolve_tag_name n split: sum.splits)
  have a: "runDocsEdit_tags sample_client tag_server [1, 5] [''receipts'', ''4''] [] []
     = (Inl (TagNotFound ''receipts''), [tags_call sample_client])"
    using remove_skips_add_aborts
            [where c = sample_client and e = tag_server and tok = "''receipts''" and log = "[]"
               and err = "TagNotFound ''receipts''" and docTags = "[1, 5]" and rest = "[''4'']"
               and rems = "[]", THEN conjunct1, THEN mp, OF conjI [OF n f]]
    by simp
  have "remove_tags sample_client tag_server [''receipts'', ''8''] [(1, True), (5, True)] []
        = remove_tags sample_client tag_server [''8''] [(1, True), (5, True)] ([] @ [tags_call sample_client])"
    using remove_skips_add_aborts
            [where c = sample_client and e = tag_server and tok = "''receipts''" and log = "[]"
               and err = "TagNotFound ''receipts''" and rest = "[''8'']"
               and tags = "[(1, True), (5, True)]", THEN conjunct1, THEN mp, OF conjI [OF n f],
             THEN conjunct1] .
  also have "\<dots> = remove_tags sample_client tag_server [] [(1, True), (5, True)] ([] @ [tags_call sample_client])"
    using remove_skips_add_aborts
            [where c = sample_client and e = tag_server and tok = "''8''" and i = 8
               and tags = "[(1, True), (5, True)]" and rest = "[]"
               and log = "[] @ [tags_call sample_client]", THEN conjunct2, THEN conjunct1]
    by (simp add: Atoi_small)
  finally have b: "fst (runDocsEdit_tags sample_client tag_server [1, 5] [] [''receipts'', ''8''] [])
     = Inr (Some [1, 5])"
    by (simp add: runDocsEdit_tags_def)
  have "\<forall>t\<in>set [''receipts'']. spec_resolve (EqualFold tag_server) (Results sample_page) t = None"
    by (simp add: tag_server_EqualFold sample_spec_resolve)
  with tag_server_stable
  have c: "fst (remove_tags sample_client tag_server [''receipts''] [(1, True), (5, True)] [])
     = [(1, True), (5, True)]"
    using remove_skips_add_aborts
            [where c = sample_client and e = tag_server and page = sample_page
               and rems = "[''receipts'']" and tags = "[(1, True), (5, True)]" and log = "[]",
             THEN conjunct2, THEN conjunct2, THEN conjunct1]
    by blast
  from a b c show ?thesis by simp
qed

section \<open>Properties of upload and download\<close>

text \<open>
  What \<open>strings.Trim\<close> removes and what it leaves, and where \<open>strings.Index\<close> points.
\<close>

lemma Trim_decompose:
  "\<exists>pre post. s = pre @ Trim s cutset @ post \<and> set pre \<subseteq> set cutset \<and> set post \<subseteq> set cutset"
proof -
  let ?P = "\<lambda>ch. ch \<in> set cutset"
  let ?s1 = "dropWhile ?P s"
  have "s = takeWhile ?P s @ ?s1"
    by simp
  moreover have "rev ?s1 = takeWhile ?P (rev ?s1) @ dropWhile ?P (rev ?s1)"
    by simp
  then have "?s1 = rev (dropWhile ?P (rev ?s1)) @ rev (takeWhile ?P (rev ?s1))"
    by (metis rev_append rev_rev_ident)
  ultimately have "s = takeWhile ?P s @ Trim s cutset @ rev (takeWhile ?P (rev ?s1))"
    by (simp add: Trim_def TrimLeft_def TrimRight_def)
  moreover have "set (takeWhile ?P s) \<subseteq> set cutset"
    by (auto dest: set_takeWhileD)
  moreover have "set (rev (takeWhile ?P (rev ?s1))) \<subseteq> set cutset"
    by (auto dest: set_takeWhileD)
  ultimately show ?thesis
    by blast
qed

lemma Trim_ends:
  assumes "Trim s cutset \<noteq> []"
  shows "hd (Trim s cutset) \<notin> set cutset \<and> last (Trim s cutset) \<notin> set cutset"
proof -
  let ?P = "\<lambda>ch. ch \<in> set cutset"
  let ?s1 = "dropWhile ?P s"
  let ?d = "dropWhile ?P (rev ?s1)"
  have t: "Trim s cutset = rev ?d"
    by (simp add: Trim_def TrimLeft_def TrimRight_def)
  with assms have d: "?d \<noteq> []" by simp
  then have "\<not> ?P (hd ?d)"
    by (rule hd_dropWhile)
  with d t have l: "last (Trim s cutset) \<notin> set cutset"
    by (simp add: last_rev)
  from d have s1: "?s1 \<noteq> []"
    by (metis dropWhile.simps(1) rev_is_Nil_conv)
  then have h1: "\<not> ?P (hd ?s1)"
    by (rule hd_dropWhile)
  have "rev ?s1 = takeWhile ?P (rev ?s1) @ ?d"
    by simp
  then have "?s1 = rev ?d @ rev (takeWhile ?P (rev ?s1))"
    by (metis rev_append rev_rev_ident)
  with d have "hd ?s1 = hd (rev ?d)"
    by (metis hd_append2 rev_is_Nil_conv)
  with h1 t have "hd (Trim s cutset) \<notin> set cutset"
    by simp
  with l show ?thesis by simp
qed



lemma Index_None_nowhere:
  "Index s sub = None \<Longrightarrow> sub \<noteq> [] \<Longrightarrow> take (length sub) (drop k s) \<noteq> sub"
proof (induction s arbitrary: k)
  case Nil
  then show ?case by auto
next
  case (Cons ch s)
  show ?case
  proof (cases k)
    case 0
    with Cons.prems show ?thesis
      by (auto simp add: HasPrefix_def split: if_splits)
  next
    case (Suc k')
    with Cons.prems Cons.IH [of k'] show ?thesis
      by (auto split: if_splits)
  qed
qed

lemma UploadDocument_eq:
  "ReadFile e filePath = Inr content \<Longrightarrow>
     UploadDocument c e filePath title correspondent docType tags log =
       (case Do e (length log) (upload_call c e filePath content title correspondent docType tags) of
          Inl err \<Rightarrow> Inl err
        | Inr resp \<Rightarrow>
            if StatusCode resp \<noteq> 200 \<and> StatusCode resp \<noteq> 201 \<and> StatusCode resp \<noteq> 202
            then Inl (StatusError ''upload failed'' (StatusCode resp) (RespBody resp))
            else Inr (Trim (RespBody resp) [CHR 0x22, CHR '' '', CHR 0x0A]),
        log @ [upload_call c e filePath content title correspondent docType tags])"
  by (simp add: UploadDocument_def request_eq split: sum.split)

lemma UploadDocument_unreadable:
  "ReadFile e filePath = Inl err \<Longrightarrow>
     UploadDocument c e filePath title correspondent docType tags log = (Inl err, log)"
  by (simp add: UploadDocument_def)

lemma sample_ReadFile: "ReadFile (sample_env ex) ''a.pdf'' = Inr ''%PDF-1.7''"
  by (simp add: sample_env_def)

text \<open>
  Claim C3, as stated: upload succeeds exactly on status 200, 201 or 202, the task handle
  is the body with all whitespace and the surrounding quotes stripped, and any other
  status is an error carrying the body. The middle part does not hold: only double
  quotes, spaces and newlines are cut from the two ends, so a body that ends in a
  carriage return and a newline keeps the carriage return and the quote before it.
\<close>

theorem upload_handle_keeps_quote_and_carriage_return:
  "fst (UploadDocument sample_client
          (sample_env (replay [Inr (reply 200 ([CHR 0x22] @ ''6f1c'' @ [CHR 0x22, CHR 0x0D, CHR 0x0A]))]))
          ''a.pdf'' ''Invoice'' None None [] [])
     = Inr (''6f1c'' @ [CHR 0x22, CHR 0x0D]) \<and>
   fst (UploadDocument sample_client
          (sample_env (replay [Inr (reply 200 ([CHR 0x22] @ ''6f1c'' @ [CHR 0x22, CHR 0x0D, CHR 0x0A]))]))
          ''a.pdf'' ''Invoice'' None None [] [])
     \<noteq> Inr (spec_task_handle ([CHR 0x22] @ ''6f1c'' @ [CHR 0x22, CHR 0x0D, CHR 0x0A])) \<and>
   is_space (CHR 0x0D)"
  by (simp add: UploadDocument_def request_eq sample_env_def replay_def reply_def Trim_def
        TrimLeft_def TrimRight_def spec_task_handle_def is_space_def)

text \<open>
  Claim C3, amended. Once the file has been read and the server has answered, upload
  succeeds exactly on status 200, 201 or 202. The handle is then the body without its
  leading and trailing double quotes, spaces and newlines: the body is the handle
  between two runs of such bytes, and the handle neither begins nor ends with one.
  Any other status is an "upload failed" error carrying the status and the body.
\<close>

theorem upload_status_and_handle:
  "ReadFile e filePath = Inr content
   \<and> Do e (length log) (upload_call c e filePath content title correspondent docType tags) = Inr resp
   \<longrightarrow>
     ((\<exists>h. fst (UploadDocument c e filePath title correspondent docType tags log) = Inr h)
        \<longleftrightarrow> StatusCode resp \<in> {200, 201, 202})
     \<and> (StatusCode resp \<in> {200, 201, 202} \<longrightarrow>
          (\<exists>h pre post.
             fst (UploadDocument c e filePath title correspondent docType tags log) = Inr h
             \<and> RespBody resp = pre @ h @ post
             \<and> set pre \<subseteq> {CHR 0x22, CHR '' '', CHR 0x0A}
             \<and> set post \<subseteq> {CHR 0x22, CHR '' '', CHR 0x0A}
             \<and> (h \<noteq> [] \<longrightarrow> hd h \<notin> {CHR 0x22, CHR '' '', CHR 0x0A}
                            \<and> last h \<notin> {CHR 0x22, CHR '' '', CHR 0x0A})))
     \<and> (StatusCode resp \<notin> {200, 201, 202} \<longrightarrow>
          fst (UploadDocument c e filePath title correspondent docType tags log)
            = Inl (StatusError ''upload failed'' (StatusCode resp) (RespBody resp)))"
proof (intro impI)
  assume h: "ReadFile e filePath = Inr content
   \<and> Do e (length log) (upload_call c e filePath content title correspondent docType tags) = Inr resp"
  let ?cut = "[CHR 0x22, CHR '' '', CHR 0x0A]"
  let ?u = "fst (UploadDocument c e filePath title correspondent docType tags log)"
  from h have u: "?u = (if StatusCode resp \<noteq> 200 \<and> StatusCode resp \<noteq> 201 \<and> StatusCode resp \<noteq> 202
            then Inl (StatusError ''upload failed'' (StatusCode resp) (RespBody resp))
            else Inr (Trim (RespBody resp) ?cut))"
    by (simp add: UploadDocument_eq)
  have 1: "(\<exists>h. ?u = Inr h) \<longleftrightarrow> StatusCode resp \<in> {200, 201, 202}"
    using u by auto
  have 3: "StatusCode resp \<notin> {200, 201, 202} \<longrightarrow>
          ?u = Inl (StatusError ''upload failed'' (StatusCode resp) (RespBody resp))"
    using u by auto
  have 2: "StatusCode resp \<in> {200, 201, 202} \<longrightarrow>
          (\<exists>h pre post. ?u = Inr h \<and> RespBody resp = pre @ h @ post
             \<and> set pre \<subseteq> {CHR 0x22, CHR '' '', CHR 0x0A}
             \<and> set post \<subseteq> {CHR 0x22, CHR '' '', CHR 0x0A}
             \<and> (h \<noteq> [] \<longrightarrow> hd h \<notin> {CHR 0x22, CHR '' '', CHR 0x0A}
                            \<and> last h \<notin> {CHR 0x22, CHR '' '', CHR 0x0A}))"
  proof
    assume "StatusCode resp \<in> {200, 201, 202}"
    with u have r: "?u = Inr (Trim (RespBody resp) ?cut)"
      by auto
    obtain pre post where d: "RespBody resp = pre @ Trim (RespBody resp) ?cut @ post"
      "set pre \<subseteq> set ?cut" "set post \<subseteq> set ?cut"
      using Trim_decompose [of "RespBody resp" ?cut] by blast
    have "Trim (RespBody resp) ?cut \<noteq> [] \<longrightarrow>
            hd (Trim (RespBody resp) ?cut) \<notin> set ?cut \<and> last (Trim (RespBody resp) ?cut) \<notin> set ?cut"
      using Trim_ends [of "RespBody resp" ?cut] by blast
    with r d show "\<exists>h pre post. ?u = Inr h \<and> RespBody resp = pre @ h @ post
             \<and> set pre \<subseteq> {CHR 0x22, CHR '' '', CHR 0x0A}
             \<and> set post \<subseteq> {CHR 0x22, CHR '' '', CHR 0x0A}
             \<and> (h \<noteq> [] \<longrightarrow> hd h \<notin> {CHR 0x22, CHR '' '', CHR 0x0A}
                            \<and> last h \<notin> {CHR 0x22, CHR '' '', CHR 0x0A})"
      by (intro exI [of _ "Trim (RespBody resp) ?cut"] exI [of _ pre] exI [of _ post]) simp
  qed
  from 1 2 3 show "((\<exists>h. ?u = Inr h) \<longleftrightarrow> StatusCode resp \<in> {200, 201, 202})
     \<and> (StatusCode resp \<in> {200, 201, 202} \<longrightarrow>
          (\<exists>h pre post. ?u = Inr h \<and> RespBody resp = pre @ h @ post
             \<and> set pre \<subseteq> {CHR 0x22, CHR '' '', CHR 0x0A}
             \<and> set post \<subseteq> {CHR 0x22, CHR '' '', CHR 0x0A}
             \<and> (h \<noteq> [] \<longrightarrow> hd h \<notin> {CHR 0x22, CHR '' '', CHR 0x0A}
                            \<and> last h \<notin> {CHR 0x22, CHR '' '', CHR 0x0A})))
     \<and> (StatusCode resp \<notin> {200, 201, 202} \<longrightarrow>
          ?u = Inl (StatusError ''upload failed'' (StatusCode resp) (RespBody resp)))"
    by blast
qed

theorem upload_status_and_handle_witness:
  "fst (UploadDocument sample_client
          (sample_env (replay [Inr (reply 202 ([CHR 0x22] @ ''6f1c'' @ [CHR 0x22, CHR 0x0A]))]))
          ''a.pdf'' ''Invoice'' None None [7] [])
     = Inr ''6f1c'' \<and>
   fst (UploadDocument sample_client (sample_env (replay [Inr (reply 400 ''bad file'')]))
          ''a.pdf'' ''Invoice'' None None [7] [])
     = Inl (StatusError ''upload failed'' 400 ''bad file'')"
proof -
  let ?body = "[CHR 0x22] @ ''6f1c'' @ [CHR 0x22, CHR 0x0A]"
  let ?e1 = "sample_env (replay [Inr (reply 202 ?body)])"
  let ?e2 = "sample_env (replay [Inr (reply 400 ''bad file'')])"
  have d1: "Do ?e1 (length []) (upload_call sample_client ?e1 ''a.pdf'' ''%PDF-1.7'' ''Invoice'' None None [7])
              = Inr (reply 202 ?body)"
    by (simp add: sample_env_def replay_def)
  have d2: "Do ?e2 (length []) (upload_call sample_client ?e2 ''a.pdf'' ''%PDF-1.7'' ''Invoice'' None None [7])
              = Inr (reply 400 ''bad file'')"
    by (simp add: sample_env_def replay_def)
  note T1 = upload_status_and_handle [THEN mp, OF conjI [OF sample_ReadFile d1]]
  note T2 = upload_status_and_handle [THEN mp, OF conjI [OF sample_ReadFile d2]]
  have s1: "StatusCode (reply 202 ?body) \<in> {200, 201, 202}"
    by (simp add: reply_def)
  from T1 [THEN conjunct1] s1
  obtain h where h: "fst (UploadDocument sample_client ?e1 ''a.pdf'' ''Invoice'' None None [7] []) = Inr h"
    by blast
  moreover have "fst (UploadDocument sample_client ?e1 ''a.pdf'' ''Invoice'' None None [7] []) = Inr ''6f1c''"
    by (simp add: UploadDocument_def request_eq sample_env_def replay_def reply_def Trim_def
          TrimLeft_def TrimRight_def)
  moreover have "StatusCode (reply 400 ''bad file'') \<notin> {200, 201, 202}"
    by (simp add: reply_def)
  with T2 [THEN conjunct2, THEN conjunct2]
  have "fst (UploadDocument sample_client ?e2 ''a.pdf'' ''Invoice'' None None [7] [])
     = Inl (StatusError ''upload failed'' 400 ''bad file'')"
    by (simp add: reply_def)
  ultimately show ?thesis by simp
qed

lemma DownloadDocument_eq:
  "DownloadDocument c e ident original log =
     (case Do e (length log) (download_call c ident original) of
        Inl err \<Rightarrow> Inl err
      | Inr resp \<Rightarrow>
          if StatusCode resp \<noteq> 200
          then Inl (StatusError ''download failed'' (StatusCode resp) (RespBody resp))
          else (case ReadErr resp of
                  Some msg \<Rightarrow> Inl (ReadError msg)
                | None \<Rightarrow> Inr (RespBody resp, disposition_filename resp)),
      log @ [download_call c ident original])"
  by (simp add: DownloadDocument_def get_eq Let_def split: sum.split option.split)











text \<open>
  A body stream that breaks after a 200 status line is the one case where status 200
  does not end in success: the read error is returned.
\<close>

lemma download_read_error:
  "fst (DownloadDocument sample_client
          (sample_env (replay [Inr \<lparr>StatusCode = 200, RespHeader = [], RespBody = ''%PDF'',
                                    ReadErr = Some ''unexpected EOF''\<rparr>])) 7 False [])
     = Inl (ReadError ''unexpected EOF'')"
  by (simp add: DownloadDocument_eq sample_env_def replay_def)

section \<open>Properties of the list calls\<close>

lemma map_of_cond_Set:
  "map_of (if b then Values_Set k v q else q) k' = (if b \<and> k' = k then Some [v] else map_of q k')"
  by (simp add: Values_Set_def AList.update_conv')

lemma distinct_cond_Set:
  "distinct (map fst q) \<Longrightarrow> distinct (map fst (if b then Values_Set k v q else q))"
  by (simp add: Values_Set_def AList.distinct_update)

lemma map_of_Values_Add:
  "map_of (Values_Add k v q) = (map_of q)(k \<mapsto> (case map_of q k of None \<Rightarrow> [] | Some vs \<Rightarrow> vs) @ [v])"
  by (simp add: Values_Add_def AList.update_conv')

lemma map_of_fold_Add:
  "map_of (foldl (\<lambda>q tag. Values_Add k tag q) q ts) =
     (if ts = [] then map_of q
      else (map_of q)(k \<mapsto> (case map_of q k of None \<Rightarrow> [] | Some vs \<Rightarrow> vs) @ ts))"
proof (induction ts arbitrary: q)
  case Nil
  then show ?case by simp
next
  case (Cons t ts)
  have "map_of (foldl (\<lambda>q tag. Values_Add k tag q) q (t # ts))
          = map_of (foldl (\<lambda>q tag. Values_Add k tag q) (Values_Add k t q) ts)"
    by simp
  also have "\<dots> = (if ts = [] then map_of (Values_Add k t q)
                    else (map_of (Values_Add k t q))
                           (k \<mapsto> (case map_of (Values_Add k t q) k of None \<Rightarrow> [] | Some vs \<Rightarrow> vs) @ ts))"
    by (rule Cons.IH)
  also have "\<dots> = (map_of q)(k \<mapsto> (case map_of q k of None \<Rightarrow> [] | Some vs \<Rightarrow> vs) @ t # ts)"
    by (simp add: map_of_Values_Add)
  finally show ?case by simp
qed

lemma distinct_fold_Add:
  "distinct (map fst q) \<Longrightarrow> distinct (map fst (foldl (\<lambda>q tag. Values_Add k tag q) q ts))"
proof (induction ts arbitrary: q)
  case Nil
  then show ?case by simp
next
  case (Cons t ts)
  from Cons.prems have "distinct (map fst (Values_Add k t q))"
    by (simp add: Values_Add_def AList.distinct_update)
  from Cons.IH [OF this] show ?case by simp
qed

lemma map_of_documents_query:
  "map_of (documents_query params) k =
     (if Ordering params \<noteq> [] \<and> k = ''ordering'' then Some [Ordering params]
      else if Page params > 0 \<and> k = ''page'' then Some [Itoa (Page params)]
      else if Limit params > 0 \<and> k = ''page_size'' then Some [Itoa (Limit params)]
      else if CreatedBefore params \<noteq> [] \<and> k = ''created__date__lt'' then Some [CreatedBefore params]
      else if CreatedAfter params \<noteq> [] \<and> k = ''created__date__gt'' then Some [CreatedAfter params]
      else if DocumentType params \<noteq> [] \<and> k = ''document_type__name__iexact''
        then Some [DocumentType params]
      else if Correspondent params \<noteq> [] \<and> k = ''correspondent__name__iexact''
        then Some [Correspondent params]
      else if Tags params \<noteq> [] \<and> k = ''tags__name__iexact'' then Some (Tags params)
      else if Query params \<noteq> [] \<and> k = ''query'' then Some [Query params]
      else None)"
  unfolding documents_query_def Let_def
  by (simp only: map_of_cond_Set map_of_fold_Add) (simp add: Values_Set_def)

lemma distinct_documents_query: "distinct (map fst (documents_query params))"
  unfolding documents_query_def Let_def
  by (intro distinct_cond_Set distinct_fold_Add) simp

lemma utoa_nonempty: "utoa n \<noteq> []"
  by (subst utoa.simps) simp

lemma Itoa_nonempty: "Itoa i \<noteq> []"
  by (simp add: Itoa_def utoa_nonempty)

lemma documents_query_values_nonempty:
  assumes "(k, vs) \<in> set (documents_query params)" and "k \<noteq> ''tags__name__iexact''"
    and "v \<in> set vs"
  shows "v \<noteq> []"
proof -
  from assms(1) distinct_documents_query [of params]
  have "map_of (documents_query params) k = Some vs"
    by simp
  with assms(2,3) show ?thesis
    by (auto simp add: map_of_documents_query Itoa_nonempty Itoa_nonempty [THEN not_sym] split: if_splits)
qed

lemma documents_query_keys:
  "fst ` set (documents_query params) \<subseteq>
     {''query'', ''tags__name__iexact'', ''correspondent__name__iexact'',
      ''document_type__name__iexact'', ''created__date__gt'', ''created__date__lt'',
      ''page_size'', ''page'', ''ordering''}"
proof
  fix k assume "k \<in> fst ` set (documents_query params)"
  then have "map_of (documents_query params) k \<noteq> None"
    by (simp add: map_of_eq_None_iff)
  then show "k \<in> {''query'', ''tags__name__iexact'', ''correspondent__name__iexact'',
      ''document_type__name__iexact'', ''created__date__gt'', ''created__date__lt'',
      ''page_size'', ''page'', ''ordering''}"
    by (simp add: map_of_documents_query split: if_splits)
qed

lemma documents_query_empty:
  assumes "Query params = []" "Tags params = []" "Correspondent params = []"
    "DocumentType params = []" "CreatedAfter params = []" "CreatedBefore params = []"
    "Limit params \<le> 0" "Page params \<le> 0" "Ordering params = []"
  shows "documents_query params = []"
  using assms by (simp add: documents_query_def)

lemma snd_list_at: "snd (list_at c e decode path log) = log @ [new_request c ''GET'' path NoBody []]"
  by (simp add: list_at_eq)

lemma sample_documents_query:
  "documents_query sample_params = [(''query'', [''tax 2024'']), (''page_size'', [''10''])]"
  by (simp add: sample_params_def documents_query_def Values_Set_def Itoa_def digit_char_def)

lemma sample_Values_Encode:
  "Values_Encode [(''query'', [''tax 2024'']), (''page_size'', [''10''])]
     = ''page_size=10&query=tax+2024''"
  by (simp add: Values_Encode_def QueryEscape_def shouldEscape_def is_alnum_def is_digit_def
        upperhex_def)

text \<open>
  Claim C9. \<open>ListDocuments\<close> issues one GET whose path is \<open>/api/documents/\<close> followed,
  when there is any parameter, by \<open>?\<close> and the encoded parameters. A parameter is present
  exactly when its filter is: an empty query, correspondent, document type, date bound or
  ordering, and a limit or page that is not positive, contribute no key at all, and a
  key that is present carries the filter's value, which is not the empty string. With
  every filter absent the path is \<open>/api/documents/\<close> alone. The five auxiliary listings
  each issue one GET with the fixed \<open>page_size=1000\<close>.
\<close>

theorem list_query_strings:
  "snd (ListDocuments c e decode params log)
     = log @ [new_request c ''GET'' (documents_path params) NoBody []] \<and>
   documents_path params
     = (if documents_query params = [] then ''/api/documents/''
        else ''/api/documents/?'' @ Values_Encode (documents_query params)) \<and>
   distinct (map fst (documents_query params)) \<and>
   fst ` set (documents_query params) \<subseteq>
     {''query'', ''tags__name__iexact'', ''correspondent__name__iexact'',
      ''document_type__name__iexact'', ''created__date__gt'', ''created__date__lt'',
      ''page_size'', ''page'', ''ordering''} \<and>
   map_of (documents_query params) ''query''
     = (if Query params = [] then None else Some [Query params]) \<and>
   map_of (documents_query params) ''correspondent__name__iexact''
     = (if Correspondent params = [] then None else Some [Correspondent params]) \<and>
   map_of (documents_query params) ''document_type__name__iexact''
     = (if DocumentType params = [] then None else Some [DocumentType params]) \<and>
   map_of (documents_query params) ''created__date__gt''
     = (if CreatedAfter params = [] then None else Some [CreatedAfter params]) \<and>
   map_of (documents_query params) ''created__date__lt''
     = (if CreatedBefore params = [] then None else Some [CreatedBefore params]) \<and>
   map_of (documents_query params) ''ordering''
     = (if Ordering params = [] then None else Some [Ordering params]) \<and>
   map_of (documents_query params) ''page_size''
     = (if Limit params \<le> 0 then None else Some [Itoa (Limit params)]) \<and>
   map_of (documents_query params) ''page''
     = (if Page params \<le> 0 then None else Some [Itoa (Page params)]) \<and>
   map_of (documents_query params) ''tags__name__iexact''
     = (if Tags params = [] then None else Some (Tags params)) \<and>
   ((k, vs) \<in> set (documents_query params) \<and> k \<noteq> ''tags__name__iexact'' \<and> v \<in> set vs
      \<longrightarrow> v \<noteq> []) \<and>
   (Query params = [] \<and> Tags params = [] \<and> Correspondent params = [] \<and> DocumentType params = []
      \<and> CreatedAfter params = [] \<and> CreatedBefore params = [] \<and> Limit params = 0
      \<and> Page params = 0 \<and> Ordering params = []
      \<longrightarrow> documents_path params = ''/api/documents/'') \<and>
   snd (ListTags c e log) = log @ [new_request c ''GET'' ''/api/tags/?page_size=1000'' NoBody []] \<and>
   snd (ListCorrespondents c e dec1 log)
     = log @ [new_request c ''GET'' ''/api/correspondents/?page_size=1000'' NoBody []] \<and>
   snd (ListDocumentTypes c e dec2 log)
     = log @ [new_request c ''GET'' ''/api/document_types/?page_size=1000'' NoBody []] \<and>
   snd (ListStoragePaths c e dec3 log)
     = log @ [new_request c ''GET'' ''/api/storage_paths/?page_size=1000'' NoBody []] \<and>
   snd (ListSavedViews c e dec4 log)
     = log @ [new_request c ''GET'' ''/api/saved_views/?page_size=1000'' NoBody []]"
proof (intro conjI)
  show "snd (ListDocuments c e decode params log)
     = log @ [new_request c ''GET'' (documents_path params) NoBody []]"
    by (simp add: ListDocuments_def snd_list_at)
  show "documents_path params
     = (if documents_query params = [] then ''/api/documents/''
        else ''/api/documents/?'' @ Values_Encode (documents_query params))"
    by (simp add: documents_path_def Let_def)
  show "distinct (map fst (documents_query params))"
    by (rule distinct_documents_query)
  show "fst ` set (documents_query params) \<subseteq>
     {''query'', ''tags__name__iexact'', ''correspondent__name__iexact'',
      ''document_type__name__iexact'', ''created__date__gt'', ''created__date__lt'',
      ''page_size'', ''page'', ''ordering''}"
    by (rule documents_query_keys)
  show "map_of (documents_query params) ''query''
     = (if Query params = [] then None else Some [Query params])"
    by (simp add: map_of_documents_query)
  show "map_of (documents_query params) ''correspondent__name__iexact''
     = (if Correspondent params = [] then None else Some [Correspondent params])"
    by (simp add: map_of_documents_query)
  show "map_of (documents_query params) ''document_type__name__iexact''
     = (if DocumentType params = [] then None else Some [DocumentType params])"
    by (simp add: map_of_documents_query)
  show "map_of (documents_query params) ''created__date__gt''
     = (if CreatedAfter params = [] then None else Some [CreatedAfter params])"
    by (simp add: map_of_documents_query)
  show "map_of (documents_query params) ''created__date__lt''
     = (if CreatedBefore params = [] then None else Some [CreatedBefore params])"
    by (simp add: map_of_documents_query)
  show "map_of (documents_query params) ''ordering''
     = (if Ordering params = [] then None else Some [Ordering params])"
    by (simp add: map_of_documents_query)
  show "map_of (documents_query params) ''page_size''
     = (if Limit params \<le> 0 then None else Some [Itoa (Limit params)])"
    by (simp add: map_of_documents_query)
  show "map_of (documents_query params) ''page''
     = (if Page params \<le> 0 then None else Some [Itoa (Page params)])"
    by (simp add: map_of_documents_query)
  show "map_of (documents_query params) ''tags__name__iexact''
     = (if Tags params = [] then None else Some (Tags params))"
    by (simp add: map_of_documents_query)
  show "(k, vs) \<in> set (documents_query params) \<and> k \<noteq> ''tags__name__iexact'' \<and> v \<in> set vs
      \<longrightarrow> v \<noteq> []"
    using documents_query_values_nonempty by blast
  show "Query params = [] \<and> Tags params = [] \<and> Correspondent params = [] \<and> DocumentType params = []
      \<and> CreatedAfter params = [] \<and> CreatedBefore params = [] \<and> Limit params = 0
      \<and> Page params = 0 \<and> Ordering params = []
      \<longrightarrow> documents_path params = ''/api/documents/''"
    by (simp add: documents_path_def documents_query_empty)
  show "snd (ListTags c e log) = log @ [new_request c ''GET'' ''/api/tags/?page_size=1000'' NoBody []]"
    by (simp add: ListTags_def snd_list_at)
  show "snd (ListCorrespondents c e dec1 log)
     = log @ [new_request c ''GET'' ''/api/correspondents/?page_size=1000'' NoBody []]"
    by (simp add: ListCorrespondents_def snd_list_at)
  show "snd (ListDocumentTypes c e dec2 log)
     = log @ [new_request c ''GET'' ''/api/document_types/?page_size=1000'' NoBody []]"
    by (simp add: ListDocumentTypes_def snd_list_at)
  show "snd (ListStoragePaths c e dec3 log)
     = log @ [new_request c ''GET'' ''/api/storage_paths/?page_size=1000'' NoBody []]"
    by (simp add: ListStoragePaths_def snd_list_at)
  show "snd (ListSavedViews c e dec4 log)
     = log @ [new_request c ''GET'' ''/api/saved_views/?page_size=1000'' NoBody []]"
    by (simp add: ListSavedViews_def snd_list_at)
qed

theorem list_query_strings_witness:
  "documents_path no_params = ''/api/documents/'' \<and>
   documents_path sample_params = ''/api/documents/?page_size=10&query=tax+2024'' \<and>
   ((''query'', [''tax 2024'']) \<in> set (documents_query sample_params)
      \<and> ''query'' \<noteq> ''tags__name__iexact'' \<and> ''tax 2024'' \<in> set [''tax 2024''])
   \<and> ''tax 2024'' \<noteq> []"
proof -
  have "Query no_params = [] \<and> Tags no_params = [] \<and> Correspondent no_params = []
      \<and> DocumentType no_params = [] \<and> CreatedAfter no_params = [] \<and> CreatedBefore no_params = []
      \<and> Limit no_params = 0 \<and> Page no_params = 0 \<and> Ordering no_params = []
      \<longrightarrow> documents_path no_params = ''/api/documents/''"
    using list_query_strings [where params = no_params] by blast
  then have a: "documents_path no_params = ''/api/documents/''"
    by (simp add: no_params_def)
  have b: "documents_path sample_params = ''/api/documents/?page_size=10&query=tax+2024''"
    using list_query_strings [where params = sample_params, THEN conjunct2, THEN conjunct1]
    by (simp add: sample_documents_query sample_Values_Encode)
  have c: "(''query'', [''tax 2024'']) \<in> set (documents_query sample_params)
      \<and> ''query'' \<noteq> ''tags__name__iexact'' \<and> ''tax 2024'' \<in> set [''tax 2024'']"
    by (simp add: sample_documents_query)
  from a b c show ?thesis by simp
qed

section \<open>Properties of the batch commands\<close>

lemma length_snd_UploadDocument:
  "length (snd (UploadDocument c e filePath title correspondent docType tags log)) \<le> length log + 1"
  by (cases "ReadFile e filePath") (simp_all add: UploadDocument_unreadable UploadDocument_eq)

lemma runDocsUpload_loop_missing:
  "StatNotExist e filePath \<Longrightarrow>
     runDocsUpload_loop c e fl ut corr dt tags (filePath # rest) (log, out)
       = (Some (FileNotFound filePath), log, out)"
  by simp

lemma runDocsUpload_loop_failed:
  "\<not> StatNotExist e filePath \<Longrightarrow>
   UploadDocument c e filePath (upload_title ut filePath) corr dt tags log = (Inl err, log') \<Longrightarrow>
     runDocsUpload_loop c e fl ut corr dt tags (filePath # rest) (log, out)
       = (Some (UploadFailedFor filePath err), log', out @ uploading_line fl filePath)"
  by (simp add: Let_def)

lemma runDocsUpload_loop_uploaded:
  "\<not> StatNotExist e filePath \<Longrightarrow>
   UploadDocument c e filePath (upload_title ut filePath) corr dt tags log = (Inr taskID, log') \<Longrightarrow>
     runDocsUpload_loop c e fl ut corr dt tags (filePath # rest) (log, out)
       = runDocsUpload_loop c e fl ut corr dt tags rest
           (log', out @ uploading_line fl filePath @ uploaded_report fl filePath taskID)"
  by (simp add: Let_def)

lemma DeleteDocument_eq:
  "DeleteDocument c e ident log =
     (case Do e (length log) (delete_call c ident) of
        Inl err \<Rightarrow> Some err
      | Inr resp \<Rightarrow>
          if StatusCode resp \<noteq> 204 \<and> StatusCode resp \<noteq> 200
          then Some (StatusError ''delete failed'' (StatusCode resp) (RespBody resp))
          else None,
      log @ [delete_call c ident])"
  by (simp add: DeleteDocument_def delete_def request_eq split: sum.split)

lemma runDocsDelete_loop_failed:
  "DeleteDocument c e ident log = (Some err, log') \<Longrightarrow>
     runDocsDelete_loop c e fl (ident # rest) (log, out) = (Some (DeleteFailed ident err), log', out)"
  by simp

lemma runDocsDelete_loop_deleted:
  "DeleteDocument c e ident log = (None, log') \<Longrightarrow>
     runDocsDelete_loop c e fl (ident # rest) (log, out)
       = runDocsDelete_loop c e fl rest (log', out @ deleted_line fl ident)"
  by simp

lemma sample_titles:
  "TrimSuffix (Base ''a.pdf'') (Ext ''a.pdf'') = ''a''"
  "TrimSuffix (Base ''b.pdf'') (Ext ''b.pdf'') = ''b''"
  "Base ''a.pdf'' = ''a.pdf''" "Base ''b.pdf'' = ''b.pdf''"
  by (simp_all add: Base_def Ext_def TrimSuffix_def HasSuffix_def TrimRight_def)

lemma batch_first_upload:
  "\<not> StatNotExist batch_server ''a.pdf'' \<and>
   UploadDocument sample_client batch_server ''a.pdf'' (upload_title [] ''a.pdf'') None None [] []
     = (Inr ''6f1c'',
        [upload_call sample_client batch_server ''a.pdf'' ''%PDF-1.7'' (upload_title [] ''a.pdf'')
           None None []])"
  by (simp add: UploadDocument_def request_eq sample_env_def replay_def reply_def Trim_def
        TrimLeft_def TrimRight_def)

lemma batch_second_upload:
  "\<not> StatNotExist batch_server ''b.pdf'' \<and>
   UploadDocument sample_client batch_server ''b.pdf'' (upload_title [] ''b.pdf'') None None []
       [upload_call sample_client batch_server ''a.pdf'' ''%PDF-1.7'' (upload_title [] ''a.pdf'')
          None None []]
     = (Inl (StatusError ''upload failed'' 400 ''bad file''),
        [upload_call sample_client batch_server ''a.pdf'' ''%PDF-1.7'' (upload_title [] ''a.pdf'')
           None None [],
         upload_call sample_client batch_server ''b.pdf'' ''%PDF-1.7'' (upload_title [] ''b.pdf'')
           None None []])"
  by (simp add: UploadDocument_def request_eq sample_env_def replay_def reply_def)

lemma batch_deletes:
  "DeleteDocument sample_client delete_server 1 [] = (None, [delete_call sample_client 1]) \<and>
   DeleteDocument sample_client delete_server 2 [delete_call sample_client 1]
     = (Some (StatusError ''delete failed'' 404 ''no such document''),
        [delete_call sample_client 1, delete_call sample_client 2])"
  by (simp add: DeleteDocument_eq sample_env_def replay_def reply_def)

text \<open>
  Claim C8, as stated: in a three-file upload where the second file fails, the first
  file's task identifier has been reported, the second file's error is reported and the
  third file is never attempted; multi-delete stops at the first failure in the same way.
  The part about the first file does not hold in every output mode: with \<open>--quiet\<close> and
  without \<open>--json\<close> a successful upload prints nothing, so the batch ends with the error
  of the second file and an empty output, although the first upload returned a task.
\<close>

theorem quiet_batch_reports_no_task:
  "fst (UploadDocument sample_client batch_server ''a.pdf'' ''a'' None None [] []) = Inr ''6f1c'' \<and>
   fst (runDocsUpload_loop sample_client batch_server \<lparr>jsonOutput = False, quietMode = True\<rparr>
          [] None None [] [''a.pdf'', ''b.pdf'', ''c.pdf''] ([], []))
     = Some (UploadFailedFor ''b.pdf'' (StatusError ''upload failed'' 400 ''bad file'')) \<and>
   snd (snd (runDocsUpload_loop sample_client batch_server \<lparr>jsonOutput = False, quietMode = True\<rparr>
               [] None None [] [''a.pdf'', ''b.pdf'', ''c.pdf''] ([], [])))
     = []"
proof -
  let ?fl = "\<lparr>jsonOutput = False, quietMode = True\<rparr>"
  let ?l1 = "[upload_call sample_client batch_server ''a.pdf'' ''%PDF-1.7'' (upload_title [] ''a.pdf'')
                None None []]"
  let ?l2 = "[upload_call sample_client batch_server ''a.pdf'' ''%PDF-1.7'' (upload_title [] ''a.pdf'')
                None None [],
              upload_call sample_client batch_server ''b.pdf'' ''%PDF-1.7'' (upload_title [] ''b.pdf'')
                None None []]"
  let ?out1 = "[] @ uploading_line ?fl ''a.pdf'' @ uploaded_report ?fl ''a.pdf'' ''6f1c''"
  have s1: "runDocsUpload_loop sample_client batch_server ?fl [] None None []
              (''a.pdf'' # ''b.pdf'' # [''c.pdf'']) ([], [])
            = runDocsUpload_loop sample_client batch_server ?fl [] None None []
                (''b.pdf'' # [''c.pdf'']) (?l1, ?out1)"
    by (rule runDocsUpload_loop_uploaded
               [OF batch_first_upload [THEN conjunct1] batch_first_upload [THEN conjunct2]])
  have s2: "runDocsUpload_loop sample_client batch_server ?fl [] None None []
                (''b.pdf'' # [''c.pdf'']) (?l1, ?out1)
            = (Some (UploadFailedFor ''b.pdf'' (StatusError ''upload failed'' 400 ''bad file'')),
               ?l2, ?out1 @ uploading_line ?fl ''b.pdf'')"
    by (rule runDocsUpload_loop_failed
               [OF batch_second_upload [THEN conjunct1] batch_second_upload [THEN conjunct2]])
  have out: "?out1 @ uploading_line ?fl ''b.pdf'' = []"
    by simp
  have "runDocsUpload_loop sample_client batch_server ?fl [] None None []
              (''a.pdf'' # ''b.pdf'' # [''c.pdf'']) ([], [])
        = (Some (UploadFailedFor ''b.pdf'' (StatusError ''upload failed'' 400 ''bad file'')), ?l2, [])"
    using trans [OF s1 s2] out by (simp only:)
  then have r: "fst (runDocsUpload_loop sample_client batch_server ?fl [] None None []
                       [''a.pdf'', ''b.pdf'', ''c.pdf''] ([], []))
                  = Some (UploadFailedFor ''b.pdf'' (StatusError ''upload failed'' 400 ''bad file''))"
    "snd (snd (runDocsUpload_loop sample_client batch_server ?fl [] None None []
                       [''a.pdf'', ''b.pdf'', ''c.pdf''] ([], []))) = []"
    by (simp_all only: fst_conv snd_conv)
  have "fst (UploadDocument sample_client batch_server ''a.pdf'' ''a'' None None [] [])
                   = Inr ''6f1c''"
    by (simp add: UploadDocument_def request_eq sample_env_def replay_def reply_def Trim_def
          TrimLeft_def TrimRight_def)
  with r show ?thesis by (simp only:)
qed

text \<open>
  Claim C8, amended. Files are processed in order and the first failure ends the batch.
  When the first file is uploaded with task \<open>t1\<close> and the second file fails (it does not
  exist, or its upload returns an error), the command returns the second file's error;
  the calls made are those of the first two files, whatever files follow; and the output
  is the first file's progress line and report followed, if the second file exists, by its
  progress line. The report of the first file is a JSON object with the task identifier
  under \<open>--json\<close>, a text line naming it otherwise, and nothing, like the progress lines,
  under \<open>--quiet\<close> without \<open>--json\<close>. Multi-delete behaves alike: after one deletion
  and one failure it returns the failure, has made exactly those two calls, and has
  printed the first deletion unless quiet.
\<close>

theorem batch_stops_at_first_failure:
  "(\<not> StatNotExist e f1
    \<and> UploadDocument c e f1 (upload_title ut f1) corr dt tags log = (Inr t1, log1) \<longrightarrow>
      (StatNotExist e f2 \<longrightarrow>
         runDocsUpload_loop c e fl ut corr dt tags (f1 # f2 # rest) (log, out)
           = (Some (FileNotFound f2), log1, out @ uploading_line fl f1 @ uploaded_report fl f1 t1))
      \<and> (\<not> StatNotExist e f2
          \<and> UploadDocument c e f2 (upload_title ut f2) corr dt tags log1 = (Inl err, log2) \<longrightarrow>
         runDocsUpload_loop c e fl ut corr dt tags (f1 # f2 # rest) (log, out)
           = (Some (UploadFailedFor f2 err), log2,
              out @ uploading_line fl f1 @ uploaded_report fl f1 t1 @ uploading_line fl f2)
         \<and> length log2 \<le> length log + 2)
      \<and> (jsonOutput fl \<longrightarrow>
           uploaded_report fl f1 t1 = [StdoutJSON [(''file'', f1), (''task_id'', t1)]])
      \<and> (\<not> jsonOutput fl \<and> \<not> quietMode fl \<longrightarrow>
           uploaded_report fl f1 t1
             = [Stdout (''Uploaded '' @ Base f1 @ '' (task: '' @ t1 @ '')'' @ [CHR 0x0A])])
      \<and> (\<not> jsonOutput fl \<and> quietMode fl \<longrightarrow>
           uploading_line fl f1 @ uploaded_report fl f1 t1 = [])) \<and>
   (DeleteDocument c e d1 log = (None, dlog1) \<and> DeleteDocument c e d2 dlog1 = (Some derr, dlog2) \<longrightarrow>
      runDocsDelete_loop c e fl (d1 # d2 # drest) (log, out)
        = (Some (DeleteFailed d2 derr), dlog2, out @ deleted_line fl d1)
      \<and> dlog2 = log @ [delete_call c d1, delete_call c d2])"
proof (intro conjI impI)
  assume h1: "\<not> StatNotExist e f1
    \<and> UploadDocument c e f1 (upload_title ut f1) corr dt tags log = (Inr t1, log1)"
  then have step: "runDocsUpload_loop c e fl ut corr dt tags (f1 # f2 # rest) (log, out)
       = runDocsUpload_loop c e fl ut corr dt tags (f2 # rest)
           (log1, out @ uploading_line fl f1 @ uploaded_report fl f1 t1)"
    by (simp add: runDocsUpload_loop_uploaded)
  {
    assume "StatNotExist e f2"
    with step show "runDocsUpload_loop c e fl ut corr dt tags (f1 # f2 # rest) (log, out)
           = (Some (FileNotFound f2), log1, out @ uploading_line fl f1 @ uploaded_report fl f1 t1)"
      by (simp only: runDocsUpload_loop_missing)
  }
  {
    assume h2: "\<not> StatNotExist e f2
          \<and> UploadDocument c e f2 (upload_title ut f2) corr dt tags log1 = (Inl err, log2)"
    then have "runDocsUpload_loop c e fl ut corr dt tags (f2 # rest)
                 (log1, out @ uploading_line fl f1 @ uploaded_report fl f1 t1)
               = (Some (UploadFailedFor f2 err), log2,
                  (out @ uploading_line fl f1 @ uploaded_report fl f1 t1) @ uploading_line fl f2)"
      by (intro runDocsUpload_loop_failed) simp_all
    with step show "runDocsUpload_loop c e fl ut corr dt tags (f1 # f2 # rest) (log, out)
           = (Some (UploadFailedFor f2 err), log2,
              out @ uploading_line fl f1 @ uploaded_report fl f1 t1 @ uploading_line fl f2)"
      by simp
    have "length log1 \<le> length log + 1"
      using length_snd_UploadDocument [of c e f1 "upload_title ut f1" corr dt tags log] h1 by simp
    moreover have "length log2 \<le> length log1 + 1"
      using length_snd_UploadDocument [of c e f2 "upload_title ut f2" corr dt tags log1] h2 by simp
    ultimately show "length log2 \<le> length log + 2"
      by simp
  }
next
  assume "jsonOutput fl"
  then show "uploaded_report fl f1 t1 = [StdoutJSON [(''file'', f1), (''task_id'', t1)]]"
    by simp
next
  assume "\<not> jsonOutput fl \<and> \<not> quietMode fl"
  then show "uploaded_report fl f1 t1
             = [Stdout (''Uploaded '' @ Base f1 @ '' (task: '' @ t1 @ '')'' @ [CHR 0x0A])]"
    by simp
next
  assume "\<not> jsonOutput fl \<and> quietMode fl"
  then show "uploading_line fl f1 @ uploaded_report fl f1 t1 = []"
    by simp
next
  assume h: "DeleteDocument c e d1 log = (None, dlog1) \<and> DeleteDocument c e d2 dlog1 = (Some derr, dlog2)"
  then show "runDocsDelete_loop c e fl (d1 # d2 # drest) (log, out)
        = (Some (DeleteFailed d2 derr), dlog2, out @ deleted_line fl d1)"
    by simp
  from h have "dlog1 = log @ [delete_call c d1]" "dlog2 = dlog1 @ [delete_call c d2]"
    by (simp_all add: DeleteDocument_eq)
  then show "dlog2 = log @ [delete_call c d1, delete_call c d2]"
    by simp
qed

theorem batch_stops_at_first_failure_witness:
  "fst (runDocsUpload_loop sample_client batch_server \<lparr>jsonOutput = False, quietMode = False\<rparr>
          [] None None [] [''a.pdf'', ''b.pdf'', ''c.pdf''] ([], []))
     = Some (UploadFailedFor ''b.pdf'' (StatusError ''upload failed'' 400 ''bad file'')) \<and>
   length (fst (snd (runDocsUpload_loop sample_client batch_server
                       \<lparr>jsonOutput = False, quietMode = False\<rparr>
                       [] None None [] [''a.pdf'', ''b.pdf'', ''c.pdf''] ([], [])))) = 2 \<and>
   snd (snd (runDocsUpload_loop sample_client batch_server \<lparr>jsonOutput = False, quietMode = False\<rparr>
               [] None None [] [''a.pdf'', ''b.pdf'', ''c.pdf''] ([], [])))
     = [Stderr (''Uploading a.pdf...'' @ [CHR 0x0A]),
        Stdout (''Uploaded a.pdf (task: 6f1c)'' @ [CHR 0x0A]),
        Stderr (''Uploading b.pdf...'' @ [CHR 0x0A])] \<and>
   runDocsDelete_loop sample_client delete_server \<lparr>jsonOutput = False, quietMode = False\<rparr>
       [1, 2, 3] ([], [])
     = (Some (DeleteFailed 2 (StatusError ''delete failed'' 404 ''no such document'')),
        [delete_call sample_client 1, delete_call sample_client 2],
        [Stdout (''Deleted document 1'' @ [CHR 0x0A])])"
proof -
  let ?fl = "\<lparr>jsonOutput = False, quietMode = False\<rparr>"
  have u: "runDocsUpload_loop sample_client batch_server ?fl [] None None []
             (''a.pdf'' # ''b.pdf'' # [''c.pdf'']) ([], [])
           = (Some (UploadFailedFor ''b.pdf'' (StatusError ''upload failed'' 400 ''bad file'')),
              [upload_call sample_client batch_server ''a.pdf'' ''%PDF-1.7'' (upload_title [] ''a.pdf'')
                 None None [],
               upload_call sample_client batch_server ''b.pdf'' ''%PDF-1.7'' (upload_title [] ''b.pdf'')
                 None None []],
              [] @ uploading_line ?fl ''a.pdf'' @ uploaded_report ?fl ''a.pdf'' ''6f1c''
                 @ uploading_line ?fl ''b.pdf'')"
    by (rule batch_stops_at_first_failure
               [THEN conjunct1, THEN mp, OF batch_first_upload, THEN conjunct2, THEN conjunct1,
                THEN mp, OF batch_second_upload, THEN conjunct1])
  have d: "runDocsDelete_loop sample_client delete_server ?fl (1 # 2 # [3]) ([], [])
           = (Some (DeleteFailed 2 (StatusError ''delete failed'' 404 ''no such document'')),
              [delete_call sample_client 1, delete_call sample_client 2],
              [] @ deleted_line ?fl 1)"
    by (rule batch_stops_at_first_failure
               [THEN conjunct2, THEN mp, OF batch_deletes, THEN conjunct1])
  have i: "Itoa 1 = ''1''"
    by (simp add: Itoa_def digit_char_def)
  from u d show ?thesis
    by (simp add: sample_titles i)
qed

end
